theory Spec2Isabelle
  imports Complex_Main
begin

section \<open>JavaScript values\<close>

text \<open>
  A JavaScript number that holds a count of milliseconds is an integer or NaN (every
  integer used here is far below \<open>2^53\<close>, where doubles are exact). A \<open>Date\<close> object is
  identified with its time value: milliseconds since the epoch, or NaN for an Invalid Date.
  The relational operators on two Dates compare the time values as numbers, and every
  comparison with NaN is false.
\<close>

datatype number = Num int | NaN

fun num_le :: "number \<Rightarrow> number \<Rightarrow> bool" where
  "num_le (Num a) (Num b) = (a \<le> b)"
| "num_le _ _ = False"

fun num_lt :: "number \<Rightarrow> number \<Rightarrow> bool" where
  "num_lt (Num a) (Num b) = (a < b)"
| "num_lt _ _ = False"

fun num_gt :: "number \<Rightarrow> number \<Rightarrow> bool" where
  "num_gt (Num a) (Num b) = (a > b)"
| "num_gt _ _ = False"

fun num_add :: "number \<Rightarrow> number \<Rightarrow> number" where
  "num_add (Num a) (Num b) = Num (a + b)"
| "num_add _ _ = NaN"

fun num_sub :: "number \<Rightarrow> number \<Rightarrow> number" where
  "num_sub (Num a) (Num b) = Num (a - b)"
| "num_sub _ _ = NaN"

text \<open>\<open>new Date(t)\<close> clips the time value: beyond 8.64e15 ms it is an Invalid Date.\<close>

definition TimeClip :: "number \<Rightarrow> number" where
  "TimeClip t =
     (case t of
        NaN \<Rightarrow> NaN
      | Num v \<Rightarrow> if \<bar>v\<bar> \<le> 8640000000000000 then Num v else NaN)"

section \<open>Calendar events\<close>

datatype provider = Google | Zoho

text \<open>
  \<open>interface CalendarEvent\<close> of auth.ts. The fields \<open>id\<close> and \<open>end\<close> are written
  \<open>event_id\<close> and \<open>event_end\<close>. \<open>indexOf\<close> gives \<open>accountIndex\<close>, so it is an integer
  (\<open>-1\<close> when absent).
\<close>

record CalendarEvent =
  event_id :: string
  title :: string
  start :: number
  event_end :: number
  isAllDay :: bool
  account :: string
  accountEmail :: string
  accountIndex :: int
  provider :: provider

subsection \<open>getCurrentOrNextEvent\<close>

text \<open>
  The two loops of \<open>getCurrentOrNextEvent\<close>, each returning at the first event that
  passes its test. \<open>now\<close> is \<open>new Date()\<close>, which is always a valid Date, so it is an
  integer here.
\<close>

fun first_in_progress :: "int \<Rightarrow> CalendarEvent list \<Rightarrow> CalendarEvent option" where
  "first_in_progress now [] = None"
| "first_in_progress now (event # events) =
     (if num_le (start event) (Num now) \<and> num_gt (event_end event) (Num now)
      then Some event
      else first_in_progress now events)"

fun first_upcoming :: "int \<Rightarrow> CalendarEvent list \<Rightarrow> CalendarEvent option" where
  "first_upcoming now [] = None"
| "first_upcoming now (event # events) =
     (if num_gt (start event) (Num now)
      then Some event
      else first_upcoming now events)"

definition getCurrentOrNextEvent :: "int \<Rightarrow> CalendarEvent list \<Rightarrow> CalendarEvent option" where
  "getCurrentOrNextEvent now events =
     (case first_in_progress now events of
        Some event \<Rightarrow> Some event
      | None \<Rightarrow> first_upcoming now events)"

text \<open>The classes of events the specification speaks of, at an instant \<open>now\<close>.\<close>

definition in_progress :: "int \<Rightarrow> CalendarEvent \<Rightarrow> bool" where
  "in_progress now e = (num_le (start e) (Num now) \<and> num_lt (Num now) (event_end e))"

definition upcoming :: "int \<Rightarrow> CalendarEvent \<Rightarrow> bool" where
  "upcoming now e = num_lt (Num now) (start e)"

definition ended :: "int \<Rightarrow> CalendarEvent \<Rightarrow> bool" where
  "ended now e = (num_le (start e) (Num now) \<and> num_le (event_end e) (Num now))"

text \<open>Events for concrete runs: only the instants vary.\<close>

definition ev :: "string \<Rightarrow> int \<Rightarrow> int \<Rightarrow> CalendarEvent" where
  "ev t s e =
     \<lparr>event_id = t, title = t, start = Num s, event_end = Num e, isAllDay = False,
      account = ''work'', accountEmail = ''me@work.example'', accountIndex = 0,
      provider = Google\<rparr>"

section \<open>Array.prototype.sort\<close>

text \<open>
  \<open>xs.sort(cmp)\<close> is a stable sort (ECMAScript 2019; the runtimes this program runs on
  implement it so): \<open>a\<close> is placed after \<open>b\<close> when \<open>cmp(a, b) > 0\<close>, and a comparator
  result of NaN counts as \<open>+0\<close>. For a consistent comparator every stable sort returns
  the same array, the one this insertion sort computes; for an inconsistent comparator
  the language leaves the order to the implementation.
\<close>

fun insert_by :: "('a \<Rightarrow> 'a \<Rightarrow> number) \<Rightarrow> 'a \<Rightarrow> 'a list \<Rightarrow> 'a list" where
  "insert_by cmp x [] = [x]"
| "insert_by cmp x (y # ys) =
     (if num_gt (cmp x y) (Num 0) then y # insert_by cmp x ys else x # y # ys)"

definition sort_by :: "('a \<Rightarrow> 'a \<Rightarrow> number) \<Rightarrow> 'a list \<Rightarrow> 'a list" where
  "sort_by cmp xs = foldr (insert_by cmp) xs []"

text \<open>\<open>xs.slice(0, n)\<close>: a negative \<open>n\<close> counts from the end.\<close>

definition slice0 :: "int \<Rightarrow> 'a list \<Rightarrow> 'a list" where
  "slice0 n xs =
     (if n < 0 then take (nat (int (length xs) + n)) xs else take (nat n) xs)"

text \<open>\<open>xs.indexOf(x)\<close>: the first position of \<open>x\<close>, or \<open>-1\<close>.\<close>

fun indexOf :: "'a list \<Rightarrow> 'a \<Rightarrow> int" where
  "indexOf [] x = -1"
| "indexOf (y # ys) x =
     (if y = x then 0 else (let i = indexOf ys x in if i < 0 then -1 else i + 1))"

section \<open>The environment: exceptions, files, HTTP responses\<close>

text \<open>
  The exceptions the code can meet: \<open>Error\<close> is thrown by the credential loaders,
  \<open>SyntaxError\<close> by \<open>JSON.parse\<close> and \<open>response.json()\<close>, \<open>TypeError\<close> by a property read
  on \<open>undefined\<close> or \<open>null\<close>, \<open>RangeError\<close> by \<open>toISOString\<close> on an Invalid Date;
  \<open>fetch\<close> rejects with \<open>NetworkError\<close>, or with \<open>AbortError\<close> when its signal fires;
  \<open>ApiError\<close> is what the Google client throws on a response that is not 2xx.
\<close>

datatype error = Error | SyntaxError | TypeError | RangeError | NetworkError | AbortError | ApiError

text \<open>
  A JSON file as the code reads it: absent (\<open>existsSync\<close> is false), present but not
  readable as JSON (\<open>readFileSync\<close> or \<open>JSON.parse\<close> throws), or holding a JSON value.
\<close>

datatype 'a json_file = NoFile | Unreadable | Content 'a

text \<open>
  A response body as \<open>response.json()\<close> sees it: not JSON (the call rejects), the JSON
  value \<open>null\<close> (every property read on it throws), or a JSON value read as an object
  whose absent properties are \<open>undefined\<close>.
\<close>

datatype 'a body = NotJson | JsonNull | Json 'a

record 'a response =
  ok :: bool
  json :: "'a body"

section \<open>Configuration\<close>

record ZohoAccount =
  email :: string
  datacenter :: string

record Config =
  accounts :: "string list"
  gmailAccounts :: "string list"
  zohoAccounts :: "ZohoAccount list"
  lookaheadHours :: int
  showCalendarName :: bool
  countdownThresholdMinutes :: int
  maxTitleLength :: int
  waterReminderEnabled :: bool
  stretchReminderEnabled :: bool
  eyeReminderEnabled :: bool
  showCpuUsage :: bool
  showMemoryUsage :: bool
  showZohoTasks :: bool
  maxTasksToShow :: int
  showUsageLimits :: bool
  show5HourLimit :: bool
  show7DayLimit :: bool
  usageLimitsCacheTTL :: int

definition DEFAULT_CONFIG :: Config where
  "DEFAULT_CONFIG =
     \<lparr>accounts = [], gmailAccounts = [], zohoAccounts = [], lookaheadHours = 8,
      showCalendarName = True, countdownThresholdMinutes = 60, maxTitleLength = 120,
      waterReminderEnabled = True, stretchReminderEnabled = True,
      eyeReminderEnabled = True, showCpuUsage = False, showMemoryUsage = False,
      showZohoTasks = True, maxTasksToShow = 3, showUsageLimits = True,
      show5HourLimit = True, show7DayLimit = True, usageLimitsCacheTTL = 120\<rparr>"

section \<open>Usage limits and their cache\<close>

record UsageWindow =
  utilization :: real
  resets_at :: string

record UsageLimits =
  five_hour :: UsageWindow
  seven_day :: UsageWindow

text \<open>
  A cache entry as \<open>getUsageLimits\<close> reads it: \<open>data\<close> is none when the property is
  absent or falsy, and \<open>fetchedAt\<close> is the number that \<open>now - cache.fetchedAt\<close> makes
  of the property, NaN when it is absent or not numeric.
\<close>

record UsageLimitsCache =
  data :: "UsageLimits option"
  fetchedAt :: number
  ttl :: int

text \<open>Of \<open>ClaudeCredentials\<close> only the access token is read.\<close>

record ClaudeOauth =
  accessToken :: "string option"

record ClaudeCredentials =
  claudeAiOauth :: "ClaudeOauth option"

text \<open>
  The body of the usage endpoint: a property that is absent or falsy is \<open>None\<close>. The
  code requires \<open>five_hour\<close> and \<open>seven_day\<close>; within them an absent \<open>utilization\<close>
  or \<open>resets_at\<close> is replaced by \<open>0\<close> or the empty string.
\<close>

record RawWindow =
  raw_utilization :: "real option"
  raw_resets_at :: "string option"

record UsageBody =
  raw_five_hour :: "RawWindow option"
  raw_seven_day :: "RawWindow option"

text \<open>
  What one call of \<open>getUsageLimits\<close> finds outside the program: the credential file,
  the outcome of the GET (a rejection is a network failure or the abort after 5 s), and
  whether the cache file can be written.
\<close>

record usage_env =
  claude_credentials :: "ClaudeCredentials json_file"
  usage_api :: "error + UsageBody response"
  cache_writable :: bool

definition loadClaudeCredentials :: "ClaudeCredentials json_file \<Rightarrow> ClaudeCredentials option" where
  "loadClaudeCredentials f = (case f of Content c \<Rightarrow> Some c | NoFile \<Rightarrow> None | Unreadable \<Rightarrow> None)"

text \<open>
  The cache file holds a JSON value, which \<open>loadUsageLimitsCache\<close> returns as
  \<open>JSON.parse\<close> gives it: \<open>null\<close> (\<open>None\<close>), or a value read as an entry.
\<close>

type_synonym cache_file = "UsageLimitsCache option json_file"

definition loadUsageLimitsCache :: "cache_file \<Rightarrow> UsageLimitsCache option" where
  "loadUsageLimitsCache f =
     (case f of
        NoFile \<Rightarrow> Some \<lparr>data = None, fetchedAt = Num 0, ttl = 120000\<rparr>
      | Unreadable \<Rightarrow> Some \<lparr>data = None, fetchedAt = Num 0, ttl = 120000\<rparr>
      | Content v \<Rightarrow> v)"

text \<open>
  \<open>saveUsageLimitsCache\<close>: a write that fails (the directory cannot be made, the file
  cannot be opened) is swallowed by the \<open>catch\<close>, and is taken to leave the file as it
  was.
\<close>

definition saveUsageLimitsCache :: "usage_env \<Rightarrow> UsageLimitsCache \<Rightarrow> cache_file \<Rightarrow> cache_file" where
  "saveUsageLimitsCache env cache f = (if cache_writable env then Content (Some cache) else f)"

definition window_of :: "RawWindow \<Rightarrow> UsageWindow" where
  "window_of w =
     \<lparr>utilization = (case raw_utilization w of None \<Rightarrow> 0 | Some u \<Rightarrow> u),
      resets_at = (case raw_resets_at w of None \<Rightarrow> [] | Some r \<Rightarrow> r)\<rparr>"

text \<open>
  \<open>fetchUsageLimitsFromAPI\<close>: the result, and the number of requests sent. The whole
  body is inside \<open>try\<close>, so every exception becomes \<open>null\<close>.
\<close>

definition fetchUsageLimitsFromAPI :: "usage_env \<Rightarrow> UsageLimits option \<times> nat" where
  "fetchUsageLimitsFromAPI env =
     (case loadClaudeCredentials (claude_credentials env) of
        None \<Rightarrow> (None, 0)
      | Some creds \<Rightarrow>
          (case claudeAiOauth creds of
             None \<Rightarrow> (None, 0)
           | Some oauth \<Rightarrow>
               (case accessToken oauth of
                  None \<Rightarrow> (None, 0)
                | Some token \<Rightarrow>
                    if token = [] then (None, 0)
                    else
                      (case usage_api env of
                         Inl e \<Rightarrow> (None, 1)
                       | Inr response \<Rightarrow>
                           if \<not> ok response then (None, 1)
                           else
                             (case json response of
                                NotJson \<Rightarrow> (None, 1)
                              | JsonNull \<Rightarrow> (None, 1)
                              | Json d \<Rightarrow>
                                  (case raw_five_hour d of
                                     None \<Rightarrow> (None, 1)
                                   | Some fh \<Rightarrow>
                                       (case raw_seven_day d of
                                          None \<Rightarrow> (None, 1)
                                        | Some sd \<Rightarrow>
                                            (Some \<lparr>five_hour = window_of fh,
                                                   seven_day = window_of sd\<rparr>, 1))))))))"

text \<open>
  \<open>getUsageLimits\<close>: it rejects, or gives the value returned, the cache file
  afterwards, and the number of requests sent. \<open>now\<close> is \<open>Date.now()\<close>. The read of
  \<open>cache.data\<close> stands outside every \<open>try\<close>: on \<open>null\<close> it throws.
\<close>

definition getUsageLimits ::
  "Config \<Rightarrow> int \<Rightarrow> usage_env \<Rightarrow> cache_file \<Rightarrow>
   error + UsageLimits option \<times> cache_file \<times> nat" where
  "getUsageLimits config now env f =
     (case loadUsageLimitsCache f of
        None \<Rightarrow> Inl TypeError
      | Some cache \<Rightarrow>
          (let ttlMs = usageLimitsCacheTTL config * 1000
           in if data cache \<noteq> None \<and> num_lt (num_sub (Num now) (fetchedAt cache)) (Num ttlMs)
              then Inr (data cache, f, 0)
              else
                (case fetchUsageLimitsFromAPI env of
                   (Some freshData, calls) \<Rightarrow>
                     Inr (Some freshData,
                          saveUsageLimitsCache env
                            \<lparr>data = Some freshData, fetchedAt = Num now, ttl = ttlMs\<rparr> f,
                          calls)
                 | (None, calls) \<Rightarrow> Inr (data cache, f, calls))))"

text \<open>
  The ways the fetch can fail, in the words of the specification: no usable local
  credential; a timeout or network failure; a response that is not 2xx; a body that is
  malformed or lacks a required field.
\<close>

definition missing_credential :: "usage_env \<Rightarrow> bool" where
  "missing_credential env =
     (case claude_credentials env of
        NoFile \<Rightarrow> True
      | Unreadable \<Rightarrow> True
      | Content c \<Rightarrow>
          (case claudeAiOauth c of
             None \<Rightarrow> True
           | Some oauth \<Rightarrow> accessToken oauth = None \<or> accessToken oauth = Some []))"

definition request_failed :: "usage_env \<Rightarrow> bool" where
  "request_failed env = (case usage_api env of Inl e \<Rightarrow> True | Inr r \<Rightarrow> False)"

definition non_2xx :: "usage_env \<Rightarrow> bool" where
  "non_2xx env = (case usage_api env of Inl e \<Rightarrow> False | Inr r \<Rightarrow> \<not> ok r)"

definition malformed_body :: "usage_env \<Rightarrow> bool" where
  "malformed_body env =
     (case usage_api env of
        Inl e \<Rightarrow> False
      | Inr r \<Rightarrow>
          (case json r of
             NotJson \<Rightarrow> True
           | JsonNull \<Rightarrow> True
           | Json d \<Rightarrow> raw_five_hour d = None \<or> raw_seven_day d = None))"

definition fetch_fails :: "usage_env \<Rightarrow> bool" where
  "fetch_fails env =
     (missing_credential env \<or> request_failed env \<or> non_2xx env \<or> malformed_body env)"

text \<open>
  The data of the persisted entry (none when there is no readable entry), whether the
  file holds JSON \<open>null\<close>, and the two ways a call can start on a file that does not:
  with a fresh entry, or with a miss that makes it fetch.
\<close>

definition persisted_data :: "cache_file \<Rightarrow> UsageLimits option" where
  "persisted_data f =
     (case f of
        Content (Some c) \<Rightarrow> data c
      | Content None \<Rightarrow> None
      | NoFile \<Rightarrow> None
      | Unreadable \<Rightarrow> None)"

definition holds_null :: "cache_file \<Rightarrow> bool" where
  "holds_null f = (f = Content None)"

definition is_fresh :: "Config \<Rightarrow> int \<Rightarrow> cache_file \<Rightarrow> bool" where
  "is_fresh config now f =
     (case f of
        Content (Some c) \<Rightarrow>
          data c \<noteq> None \<and>
          num_lt (num_sub (Num now) (fetchedAt c)) (Num (usageLimitsCacheTTL config * 1000))
      | Content None \<Rightarrow> False
      | NoFile \<Rightarrow> False
      | Unreadable \<Rightarrow> False)"


text \<open>Values for concrete runs.\<close>

definition snapshot :: "real \<Rightarrow> real \<Rightarrow> UsageLimits" where
  "snapshot a b =
     \<lparr>five_hour = \<lparr>utilization = a, resets_at = ''2026-01-09T18:00:00Z''\<rparr>,
      seven_day = \<lparr>utilization = b, resets_at = ''2026-01-12T00:00:00Z''\<rparr>\<rparr>"

definition offline :: usage_env where
  "offline =
     \<lparr>claude_credentials = Content \<lparr>claudeAiOauth = Some \<lparr>accessToken = Some ''tok''\<rparr>\<rparr>,
      usage_api = Inl NetworkError, cache_writable = True\<rparr>"

definition entry :: "UsageLimits \<Rightarrow> int \<Rightarrow> int \<Rightarrow> cache_file" where
  "entry d fetched t = Content (Some \<lparr>data = Some d, fetchedAt = Num fetched, ttl = t\<rparr>)"



section \<open>Zoho tasks\<close>

record ZohoTask =
  task_id :: string
  task_title :: string
  description :: string
  dueDate :: "number option"
  priority :: string
  task_status :: string
  isOverdue :: bool

text \<open>
  The object literal \<open>{ High: 0, Normal: 1, Low: 2 }\<close> read at a key: one of its three
  ranks, a member it inherits from \<open>Object.prototype\<close> (a function or an object), or
  \<open>undefined\<close>. \<open>v || 1\<close> is 1 when \<open>v\<close> is \<open>undefined\<close> and also when \<open>v\<close> is 0;
  an inherited member is truthy and stays, and the subtraction reads it as NaN.
\<close>

datatype property = Absent | Rank int | Inherited

definition inherited_keys :: "string list" where
  "inherited_keys =
     [''constructor'', ''toString'', ''toLocaleString'', ''valueOf'', ''hasOwnProperty'',
      ''isPrototypeOf'', ''propertyIsEnumerable'', ''__proto__'', ''__defineGetter__'',
      ''__defineSetter__'', ''__lookupGetter__'', ''__lookupSetter__'']"

definition priorityOrder :: "string \<Rightarrow> property" where
  "priorityOrder p =
     (if p = ''High'' then Rank 0
      else if p = ''Normal'' then Rank 1
      else if p = ''Low'' then Rank 2
      else if p \<in> set inherited_keys then Inherited
      else Absent)"

definition or_1 :: "property \<Rightarrow> number" where
  "or_1 v =
     (case v of
        Absent \<Rightarrow> Num 1
      | Rank n \<Rightarrow> if n = 0 then Num 1 else Num n
      | Inherited \<Rightarrow> NaN)"

text \<open>The comparator handed to \<open>allTasks.sort\<close>. A \<open>Date\<close> object is truthy, \<open>null\<close> is not.\<close>

definition compareTasks :: "ZohoTask \<Rightarrow> ZohoTask \<Rightarrow> number" where
  "compareTasks a b =
     (if isOverdue a \<and> \<not> isOverdue b then Num (- 1)
      else if \<not> isOverdue a \<and> isOverdue b then Num 1
      else
        (case dueDate a of
           Some da \<Rightarrow>
             (case dueDate b of
                Some db \<Rightarrow> num_sub da db
              | None \<Rightarrow> Num (- 1))
         | None \<Rightarrow>
             (case dueDate b of
                Some db \<Rightarrow> Num 1
              | None \<Rightarrow>
                  num_sub (or_1 (priorityOrder (priority a)))
                    (or_1 (priorityOrder (priority b))))))"

text \<open>Tasks for concrete runs: only the due date, the priority and the overdue flag vary.\<close>

definition task :: "string \<Rightarrow> number option \<Rightarrow> string \<Rightarrow> bool \<Rightarrow> ZohoTask" where
  "task t due p over =
     \<lparr>task_id = t, task_title = t, description = [], dueDate = due, priority = p,
      task_status = ''Open'', isOverdue = over\<rparr>"

definition one_zoho :: Config where
  "one_zoho =
     DEFAULT_CONFIG\<lparr>zohoAccounts := [\<lparr>email = ''me@zoho.example'', datacenter = ''com''\<rparr>]\<rparr>"

section \<open>Dates\<close>

text \<open>
  The date arithmetic of the language standard: \<open>DayFromYear\<close>, \<open>MakeDay\<close>, \<open>MakeTime\<close>,
  \<open>MakeDate\<close>, and the rule that a year from 0 to 99 means 1900 + year. \<open>Date.UTC\<close> reads
  its arguments as UTC wall time; \<open>new Date(y, m, d, h, min, s)\<close> reads them as local
  wall time and converts with the host's time zone.
\<close>

definition DayFromYear :: "int \<Rightarrow> int" where
  "DayFromYear y =
     365 * (y - 1970) + (y - 1969) div 4 - (y - 1901) div 100 + (y - 1601) div 400"

definition InLeapYear :: "int \<Rightarrow> bool" where
  "InLeapYear y =
     (if y mod 400 = 0 then True else if y mod 100 = 0 then False else y mod 4 = 0)"

definition daysBeforeMonth :: "int \<Rightarrow> int" where
  "daysBeforeMonth mn = [0, 31, 59, 90, 120, 151, 181, 212, 243, 273, 304, 334] ! nat mn"

definition MakeDay :: "int \<Rightarrow> int \<Rightarrow> int \<Rightarrow> int" where
  "MakeDay year month dt =
     (let ym = year + month div 12;
          mn = month mod 12
      in DayFromYear ym + daysBeforeMonth mn + (if InLeapYear ym \<and> 2 \<le> mn then 1 else 0)
         + dt - 1)"

definition MakeTime :: "int \<Rightarrow> int \<Rightarrow> int \<Rightarrow> int \<Rightarrow> int" where
  "MakeTime hour mins secs ms = hour * 3600000 + mins * 60000 + secs * 1000 + ms"

definition MakeDate :: "int \<Rightarrow> int \<Rightarrow> int" where
  "MakeDate day time = day * 86400000 + time"

definition MakeFullYear :: "int \<Rightarrow> int" where
  "MakeFullYear y = (if 0 \<le> y \<and> y \<le> 99 then 1900 + y else y)"

text \<open>The wall time \<open>year-month-day hour:mins:secs\<close> (month from 0) as a time value.\<close>

definition wall_time :: "int \<Rightarrow> int \<Rightarrow> int \<Rightarrow> int \<Rightarrow> int \<Rightarrow> int \<Rightarrow> int" where
  "wall_time year month day hour mins secs =
     MakeDate (MakeDay (MakeFullYear year) month day) (MakeTime hour mins secs 0)"

definition Date_UTC :: "int \<Rightarrow> int \<Rightarrow> int \<Rightarrow> int \<Rightarrow> int \<Rightarrow> int \<Rightarrow> number" where
  "Date_UTC year month day hour mins secs =
     TimeClip (Num (wall_time year month day hour mins secs))"

text \<open>
  What the host decides: how \<open>new Date(string)\<close> reads a string, the UTC time value
  of a local time value (the time zone and its daylight-saving rules), and the number
  that unary plus makes of an arbitrary string (on a string of decimal digits it is
  \<open>toNumber\<close> below; a string that reads as a fraction is not modelled).
\<close>

record runtime =
  date_parse :: "string \<Rightarrow> number"
  utc_of_local :: "int \<Rightarrow> int"
  unary_plus :: "string \<Rightarrow> number"

definition Date_local :: "runtime \<Rightarrow> int \<Rightarrow> int \<Rightarrow> int \<Rightarrow> int \<Rightarrow> int \<Rightarrow> int \<Rightarrow> number" where
  "Date_local rt year month day hour mins secs =
     TimeClip (Num (utc_of_local rt (wall_time year month day hour mins secs)))"

text \<open>\<open>d.toISOString()\<close> throws on an Invalid Date; the string itself is not modelled.\<close>

definition toISOString :: "number \<Rightarrow> error + int" where
  "toISOString d = (case d of NaN \<Rightarrow> Inl RangeError | Num v \<Rightarrow> Inr v)"

subsection \<open>parseZohoDate\<close>

definition isDigit :: "char \<Rightarrow> bool" where
  "isDigit c = (c \<in> set ''0123456789'')"

definition digitValue :: "char \<Rightarrow> int" where
  "digitValue c =
     (case map_of (zip ''0123456789'' [0, 1, 2, 3, 4, 5, 6, 7, 8, 9]) c of
        Some v \<Rightarrow> v
      | None \<Rightarrow> 0)"

text \<open>Unary plus on a string of decimal digits.\<close>

definition toNumber :: "string \<Rightarrow> int" where
  "toNumber s = foldl (\<lambda>n c. 10 * n + digitValue c) 0 s"

text \<open>
  The regular expression
  \<^verbatim>\<open>/^(\d{4})(\d{2})(\d{2})T(\d{2})(\d{2})(\d{2})([Z]|([+-])(\d{2})(\d{2}))?$/\<close>
  and its capture groups. \<open>\d\<close> is an ASCII digit, and \<open>$\<close> is the end of the string.
\<close>

datatype zone = NoZone | Zulu | Offset char string string

record ZohoMatch =
  m_year :: string
  m_month :: string
  m_day :: string
  m_hour :: string
  m_min :: string
  m_sec :: string
  m_zone :: zone

definition matchZone :: "string \<Rightarrow> zone option" where
  "matchZone r =
     (if r = [] then Some NoZone
      else if r = ''Z'' then Some Zulu
      else if length r = 5 \<and> (hd r = CHR ''+'' \<or> hd r = CHR ''-'') \<and> list_all isDigit (tl r)
      then Some (Offset (hd r) (take 2 (tl r)) (drop 2 (tl r)))
      else None)"

definition matchZohoDate :: "string \<Rightarrow> ZohoMatch option" where
  "matchZohoDate s =
     (if 15 \<le> length s \<and> list_all isDigit (take 8 s) \<and> take 1 (drop 8 s) = ''T'' \<and>
         list_all isDigit (take 6 (drop 9 s))
      then
        (case matchZone (drop 15 s) of
           None \<Rightarrow> None
         | Some z \<Rightarrow>
             Some \<lparr>m_year = take 4 s, m_month = take 2 (drop 4 s), m_day = take 2 (drop 6 s),
                   m_hour = take 2 (drop 9 s), m_min = take 2 (drop 11 s),
                   m_sec = take 2 (drop 13 s), m_zone = z\<rparr>)
      else None)"

definition parseZohoDate :: "runtime \<Rightarrow> string \<Rightarrow> number" where
  "parseZohoDate rt dateStr =
     (case matchZohoDate dateStr of
        Some m \<Rightarrow>
          (let year = toNumber (m_year m); month = toNumber (m_month m);
               day = toNumber (m_day m); hour = toNumber (m_hour m);
               mins = toNumber (m_min m); secs = toNumber (m_sec m)
           in case m_zone m of
                Zulu \<Rightarrow> TimeClip (Date_UTC year (month - 1) day hour mins secs)
              | Offset sign tzHour tzMin \<Rightarrow>
                  (let offsetMinutes =
                         (toNumber tzHour * 60 + toNumber tzMin) * (if sign = CHR ''+'' then - 1 else 1);
                       utc = Date_UTC year (month - 1) day hour mins secs
                   in TimeClip (num_add utc (Num (offsetMinutes * 60000))))
              | NoZone \<Rightarrow> Date_local rt year (month - 1) day hour mins secs)
      | None \<Rightarrow> date_parse rt dateStr)"

text \<open>
  A well-formed timed-event string: four digits of year, two each of month, day, hour,
  minute and second around the letter T. A zone offset is a sign and four digits.
\<close>

definition digits :: "nat \<Rightarrow> string \<Rightarrow> bool" where
  "digits n s = (length s = n \<and> list_all isDigit s)"

definition wall_string :: "string \<Rightarrow> string \<Rightarrow> string \<Rightarrow> string \<Rightarrow> string \<Rightarrow> string \<Rightarrow> string" where
  "wall_string y mo d h mi s = y @ mo @ d @ ''T'' @ h @ mi @ s"

definition well_formed :: "string \<Rightarrow> string \<Rightarrow> string \<Rightarrow> string \<Rightarrow> string \<Rightarrow> string \<Rightarrow> bool" where
  "well_formed y mo d h mi s =
     (digits 4 y \<and> digits 2 mo \<and> digits 2 d \<and> digits 2 h \<and> digits 2 mi \<and> digits 2 s)"

text \<open>The wall time such a string spells, read as UTC.\<close>

definition utc_wall :: "string \<Rightarrow> string \<Rightarrow> string \<Rightarrow> string \<Rightarrow> string \<Rightarrow> string \<Rightarrow> int" where
  "utc_wall y mo d h mi s =
     wall_time (toNumber y) (toNumber mo - 1) (toNumber d) (toNumber h) (toNumber mi) (toNumber s)"

definition offset_ms :: "string \<Rightarrow> string \<Rightarrow> int" where
  "offset_ms tzh tzm = (toNumber tzh * 60 + toNumber tzm) * 60000"

text \<open>A host in a zone five and a half hours ahead of UTC that parses no strings.\<close>

definition kolkata :: runtime where
  "kolkata =
     \<lparr>date_parse = (\<lambda>s. NaN), utc_of_local = (\<lambda>t. t - 19800000),
      unary_plus = (\<lambda>s. if list_all isDigit s then Num (toNumber s) else NaN)\<rparr>"

section \<open>Zoho tokens\<close>

record Datacenter =
  dc_accounts :: string
  dc_calendar :: string
  dc_mail :: string

definition ZOHO_DATACENTERS :: "string \<Rightarrow> Datacenter option" where
  "ZOHO_DATACENTERS =
     map_of
       [(''com'', \<lparr>dc_accounts = ''https://accounts.zoho.com'', dc_calendar = ''https://calendar.zoho.com'', dc_mail = ''https://mail.zoho.com''\<rparr>),
        (''eu'', \<lparr>dc_accounts = ''https://accounts.zoho.eu'', dc_calendar = ''https://calendar.zoho.eu'', dc_mail = ''https://mail.zoho.eu''\<rparr>),
        (''in'', \<lparr>dc_accounts = ''https://accounts.zoho.in'', dc_calendar = ''https://calendar.zoho.in'', dc_mail = ''https://mail.zoho.in''\<rparr>),
        (''com.au'', \<lparr>dc_accounts = ''https://accounts.zoho.com.au'', dc_calendar = ''https://calendar.zoho.com.au'', dc_mail = ''https://mail.zoho.com.au''\<rparr>),
        (''com.cn'', \<lparr>dc_accounts = ''https://accounts.zoho.com.cn'', dc_calendar = ''https://calendar.zoho.com.cn'', dc_mail = ''https://mail.zoho.com.cn''\<rparr>),
        (''jp'', \<lparr>dc_accounts = ''https://accounts.zoho.jp'', dc_calendar = ''https://calendar.zoho.jp'', dc_mail = ''https://mail.zoho.jp''\<rparr>),
        (''zohocloud.ca'', \<lparr>dc_accounts = ''https://accounts.zohocloud.ca'', dc_calendar = ''https://calendar.zohocloud.ca'', dc_mail = ''https://mail.zohocloud.ca''\<rparr>)]"

record ZohoCredentials =
  client_id :: string
  client_secret :: string

text \<open>
  \<open>interface ZohoToken\<close>. At run time \<open>access_token\<close> can be \<open>undefined\<close> and
  \<open>expires_at\<close> can be NaN: a refresh writes whatever the response body holds.
\<close>

record ZohoToken =
  access_token :: "string option"
  refresh_token :: string
  expires_at :: number
  api_domain :: "string option"

text \<open>The body of the token endpoint: the two properties the code reads.\<close>

record TokenBody =
  body_access_token :: "string option"
  expires_in :: "int option"

text \<open>The bodies of the calendar endpoints, and the events in them.\<close>

record ZohoCalendar =
  isdefault :: bool
  cal_uid :: "string option"

record CalendarsBody =
  body_calendars :: "ZohoCalendar list option"

record ZohoDateAndTime =
  dt_start :: "string option"
  dt_end :: "string option"

record ZohoEvent =
  z_uid :: "string option"
  z_title :: "string option"
  isallday :: bool
  dateandtime :: "ZohoDateAndTime option"
  z_start :: "string option"
  z_end :: "string option"

record EventsBody =
  body_events :: "ZohoEvent list option"

text \<open>
  The body of the tasks endpoint (\<open>data.data?.tasks\<close>), and the tasks in it. A task
  can be \<open>null\<close> (\<open>None\<close> in the list). Its \<open>dueDate\<close> is absent or falsy, a string, or
  a truthy value that is not a string and so has no \<open>split\<close>.
\<close>

datatype due_value = NoDue | DueString string | DueOther

record RawTask =
  raw_id :: "string option"
  raw_title :: "string option"
  raw_description :: "string option"
  raw_dueDate :: due_value
  raw_priority :: "string option"
  raw_status :: "string option"

record TasksBody =
  body_tasks :: "RawTask option list option"

text \<open>
  What one invocation finds outside the program for one Zoho account: the credential
  file, the account's token file, the outcome of each request it may send, the clock
  when the token response arrives and when the tasks response arrives, and whether the
  token file can be written. Accounts are taken to have token files of their own: what
  one account's refresh writes is not read by another account of the same invocation.
\<close>

record zoho_env =
  zoho_credentials :: "ZohoCredentials json_file"
  token_file :: "ZohoToken json_file"
  token_api :: "error + TokenBody response"
  now_after :: int
  token_writable :: bool
  calendars_api :: "error + CalendarsBody response"
  events_api :: "error + EventsBody response"
  tasks_api :: "error + TasksBody response"
  tasks_now :: int

definition loadZohoCredentials :: "ZohoCredentials json_file \<Rightarrow> error + ZohoCredentials" where
  "loadZohoCredentials f =
     (case f of NoFile \<Rightarrow> Inl Error | Unreadable \<Rightarrow> Inl SyntaxError | Content c \<Rightarrow> Inr c)"

text \<open>
  \<open>refreshZohoToken\<close>: its outcome (reading the token file stands outside the \<open>try\<close>, so
  it can throw), the token file afterwards, and the number of refresh exchanges sent.
  \<open>now\<close> is the first \<open>Date.now()\<close>. A write that throws is taken to leave the file as it
  was.
\<close>

definition refreshZohoToken ::
  "ZohoAccount \<Rightarrow> int \<Rightarrow> zoho_env \<Rightarrow> (error + ZohoToken option) \<times> ZohoToken json_file \<times> nat" where
  "refreshZohoToken acct now env =
     (case token_file env of
        NoFile \<Rightarrow> (Inr None, NoFile, 0)
      | Unreadable \<Rightarrow> (Inl SyntaxError, Unreadable, 0)
      | Content token \<Rightarrow>
          if num_gt (expires_at token) (Num (now + 300000))
          then (Inr (Some token), Content token, 0)
          else
            (case loadZohoCredentials (zoho_credentials env) of
               Inl e \<Rightarrow> (Inr None, Content token, 0)
             | Inr credentials \<Rightarrow>
                 (case ZOHO_DATACENTERS (datacenter acct) of
                    None \<Rightarrow> (Inr None, Content token, 0)
                  | Some dc \<Rightarrow>
                      (case token_api env of
                         Inl e \<Rightarrow> (Inr None, Content token, 1)
                       | Inr response \<Rightarrow>
                           if \<not> ok response then (Inr None, Content token, 1)
                           else
                             (case json response of
                                NotJson \<Rightarrow> (Inr None, Content token, 1)
                              | JsonNull \<Rightarrow> (Inr None, Content token, 1)
                              | Json d \<Rightarrow>
                                  (let updatedToken = token
                                         \<lparr>access_token := body_access_token d,
                                          expires_at :=
                                            (case expires_in d of
                                               None \<Rightarrow> NaN
                                             | Some n \<Rightarrow> Num (now_after env + n * 1000))\<rparr>
                                   in if token_writable env
                                      then (Inr (Some updatedToken), Content updatedToken, 1)
                                      else (Inr None, Content token, 1)))))))"

text \<open>
  The parts of the environment the claims about the refresh speak of: a token inside the
  five-minute buffer, loadable client credentials with a known datacenter, and the ways
  an exchange can fail without a usable body.
\<close>

definition inside_buffer :: "int \<Rightarrow> ZohoToken \<Rightarrow> bool" where
  "inside_buffer now token = (\<not> num_gt (expires_at token) (Num (now + 300000)))"

definition can_exchange :: "ZohoAccount \<Rightarrow> zoho_env \<Rightarrow> bool" where
  "can_exchange acct env =
     ((case zoho_credentials env of Content c \<Rightarrow> True | NoFile \<Rightarrow> False | Unreadable \<Rightarrow> False) \<and>
      ZOHO_DATACENTERS (datacenter acct) \<noteq> None)"

definition exchange_rejected :: "zoho_env \<Rightarrow> bool" where
  "exchange_rejected env =
     (case token_api env of
        Inl e \<Rightarrow> True
      | Inr r \<Rightarrow> (if ok r then json r = NotJson \<or> json r = JsonNull else True))"

text \<open>Values for concrete runs.\<close>

definition zoho_acct :: ZohoAccount where
  "zoho_acct = \<lparr>email = ''me@zoho.example'', datacenter = ''com''\<rparr>"

definition old_token :: ZohoToken where
  "old_token =
     \<lparr>access_token = Some ''old'', refresh_token = ''refresh'', expires_at = Num 1000,
      api_domain = Some ''https://www.zohoapis.com''\<rparr>"

definition zoho_world :: "ZohoCredentials json_file \<Rightarrow> error + TokenBody response \<Rightarrow> zoho_env" where
  "zoho_world creds reply =
     \<lparr>zoho_credentials = creds, token_file = Content old_token, token_api = reply,
      now_after = 5000, token_writable = True,
      calendars_api = Inl NetworkError, events_api = Inl NetworkError,
      tasks_api = Inl NetworkError, tasks_now = 0\<rparr>"

definition zoho_creds :: "ZohoCredentials json_file" where
  "zoho_creds = Content \<lparr>client_id = ''id'', client_secret = ''secret''\<rparr>"

section \<open>Fetching events\<close>

text \<open>
  An \<open>async\<close> function either returns or rejects: its outcome is \<open>error + 'a\<close>.
  \<open>try { ... } catch { return [] }\<close> turns every exception of its body into the empty
  list; \<open>Promise.all\<close> rejects as soon as one of its promises does.
\<close>

definition catch_empty :: "error + 'a list \<Rightarrow> error + 'a list" where
  "catch_empty r = (case r of Inl e \<Rightarrow> Inr [] | Inr v \<Rightarrow> Inr v)"

fun Promise_all :: "(error + 'a) list \<Rightarrow> error + 'a list" where
  "Promise_all [] = Inr []"
| "Promise_all (p # ps) =
     (case p of
        Inl e \<Rightarrow> Inl e
      | Inr v \<Rightarrow> (case Promise_all ps of Inl e \<Rightarrow> Inl e | Inr vs \<Rightarrow> Inr (v # vs)))"

text \<open>\<open>xs.map(f)\<close> for an \<open>f\<close> that can throw.\<close>

fun map_throwing :: "('a \<Rightarrow> error + 'b) \<Rightarrow> 'a list \<Rightarrow> error + 'b list" where
  "map_throwing f [] = Inr []"
| "map_throwing f (x # xs) =
     (case f x of
        Inl e \<Rightarrow> Inl e
      | Inr v \<Rightarrow> (case map_throwing f xs of Inl e \<Rightarrow> Inl e | Inr vs \<Rightarrow> Inr (v # vs)))"

text \<open>\<open>v || d\<close> on a string that may be \<open>undefined\<close>: the empty string is falsy too.\<close>

definition or_string :: "string option \<Rightarrow> string \<Rightarrow> string" where
  "or_string v d = (case v of None \<Rightarrow> d | Some s \<Rightarrow> if s = [] then d else s)"

definition extractAccountName :: "string \<Rightarrow> string" where
  "extractAccountName mail =
     (let atIndex = indexOf mail CHR ''@''
      in if atIndex = - 1 then mail
         else
           (let domain = drop (nat atIndex + 1) mail
            in if domain = ''gmail.com'' then take (nat atIndex) mail
               else takeWhile (\<lambda>c. c \<noteq> CHR ''.'') domain))"

definition gmail_of :: "Config \<Rightarrow> string list" where
  "gmail_of config =
     (if gmailAccounts config \<noteq> [] then gmailAccounts config else accounts config)"

definition getAllAccounts :: "Config \<Rightarrow> string list" where
  "getAllAccounts config = gmail_of config @ map email (zohoAccounts config)"

subsection \<open>Google\<close>

record GoogleSecrets =
  g_client_id :: string
  g_client_secret :: string

record GoogleCredentials =
  installed :: "GoogleSecrets option"
  web :: "GoogleSecrets option"

record EventDateTime =
  date :: "string option"
  dateTime :: "string option"

text \<open>Of \<open>calendar_v3.Schema$Event\<close>, the properties the code reads.\<close>

record GoogleEvent =
  g_id :: "string option"
  g_summary :: "string option"
  g_start :: "EventDateTime option"
  g_end :: "EventDateTime option"

text \<open>
  What one invocation finds outside the program for one Google account: the credential
  file, the account's token file at its new and at its legacy path, and the outcome of
  \<open>calendar.events.list\<close> (a rejection, or \<open>response.data.items\<close>).
\<close>

record google_env =
  google_credentials :: "GoogleCredentials json_file"
  google_token :: "string json_file"
  legacy_token :: "string json_file"
  events_list :: "error + GoogleEvent list option"

definition loadGoogleCredentials :: "GoogleCredentials json_file \<Rightarrow> error + GoogleCredentials" where
  "loadGoogleCredentials f =
     (case f of NoFile \<Rightarrow> Inl Error | Unreadable \<Rightarrow> Inl SyntaxError | Content c \<Rightarrow> Inr c)"

text \<open>Destructuring \<open>credentials.installed || credentials.web\<close> throws when both are absent.\<close>

definition createGoogleOAuth2Client :: "GoogleCredentials \<Rightarrow> error + GoogleSecrets" where
  "createGoogleOAuth2Client credentials =
     (case installed credentials of
        Some c \<Rightarrow> Inr c
      | None \<Rightarrow> (case web credentials of Some c \<Rightarrow> Inr c | None \<Rightarrow> Inl TypeError))"

definition getGoogleAuthenticatedClient :: "google_env \<Rightarrow> error + GoogleSecrets option" where
  "getGoogleAuthenticatedClient env =
     (case loadGoogleCredentials (google_credentials env) of
        Inl e \<Rightarrow> Inl e
      | Inr credentials \<Rightarrow>
          (case createGoogleOAuth2Client credentials of
             Inl e \<Rightarrow> Inl e
           | Inr oauth2Client \<Rightarrow>
               (let tokenFile =
                      (case google_token env of
                         NoFile \<Rightarrow> legacy_token env
                       | Unreadable \<Rightarrow> Unreadable
                       | Content t \<Rightarrow> Content t)
                in case tokenFile of
                     NoFile \<Rightarrow> Inr None
                   | Unreadable \<Rightarrow> Inl SyntaxError
                   | Content t \<Rightarrow> Inr (Some oauth2Client))))"

text \<open>
  \<open>new Date(v)\<close> for a string that may be \<open>undefined\<close>, and \<open>v + "T00:00:00"\<close>, where
  \<open>undefined\<close> prints as the word.
\<close>

definition new_Date_string :: "runtime \<Rightarrow> string option \<Rightarrow> number" where
  "new_Date_string rt v = (case v of None \<Rightarrow> NaN | Some s \<Rightarrow> date_parse rt s)"

definition midnight_of :: "runtime \<Rightarrow> string option \<Rightarrow> number" where
  "midnight_of rt v =
     date_parse rt ((case v of None \<Rightarrow> ''undefined'' | Some s \<Rightarrow> s) @ ''T00:00:00'')"

definition field_of :: "EventDateTime option \<Rightarrow> (EventDateTime \<Rightarrow> string option) \<Rightarrow> string option" where
  "field_of v f = (case v of None \<Rightarrow> None | Some x \<Rightarrow> f x)"

definition googleEvent :: "runtime \<Rightarrow> string \<Rightarrow> int \<Rightarrow> GoogleEvent \<Rightarrow> CalendarEvent" where
  "googleEvent rt acct idx event =
     (let allDay = (or_string (field_of (g_start event) dateTime) [] = [])
      in \<lparr>event_id = or_string (g_id event) [],
          title = or_string (g_summary event) ''(No title)'',
          start = (if allDay then midnight_of rt (field_of (g_start event) date)
                   else new_Date_string rt (field_of (g_start event) dateTime)),
          event_end = (if allDay then midnight_of rt (field_of (g_end event) date)
                       else new_Date_string rt (field_of (g_end event) dateTime)),
          isAllDay = allDay,
          account = extractAccountName acct,
          accountEmail = acct,
          accountIndex = idx,
          provider = Google\<rparr>)"

text \<open>The body of the \<open>try\<close> for one Google account.\<close>

definition googleAccountBody ::
  "runtime \<Rightarrow> google_env \<Rightarrow> number \<Rightarrow> string \<Rightarrow> int \<Rightarrow> error + CalendarEvent list" where
  "googleAccountBody rt env timeMax acct idx =
     (case getGoogleAuthenticatedClient env of
        Inl e \<Rightarrow> Inl e
      | Inr None \<Rightarrow> Inr []
      | Inr (Some auth) \<Rightarrow>
          (case toISOString timeMax of
             Inl e \<Rightarrow> Inl e
           | Inr t \<Rightarrow>
               (case events_list env of
                  Inl e \<Rightarrow> Inl e
                | Inr items \<Rightarrow>
                    Inr (map (googleEvent rt acct idx)
                          (case items of None \<Rightarrow> [] | Some es \<Rightarrow> es)))))"

definition getGoogleEvents ::
  "Config \<Rightarrow> runtime \<Rightarrow> (string \<Rightarrow> google_env) \<Rightarrow> number \<Rightarrow> error + CalendarEvent list" where
  "getGoogleEvents config rt world timeMax =
     (case Promise_all
             (map (\<lambda>acct. catch_empty
                     (googleAccountBody rt (world acct) timeMax acct
                        (indexOf (getAllAccounts config) acct)))
                (gmail_of config)) of
        Inl e \<Rightarrow> Inl e
      | Inr results \<Rightarrow> Inr (concat results))"

subsection \<open>Zoho\<close>

text \<open>\<open>parseZohoDate\<close> applied to a property that may be absent: \<open>dateStr.match\<close> throws.\<close>

definition parseZohoDateOf :: "runtime \<Rightarrow> string option \<Rightarrow> error + number" where
  "parseZohoDateOf rt v = (case v of None \<Rightarrow> Inl TypeError | Some s \<Rightarrow> Inr (parseZohoDate rt s))"

definition zohoEvent :: "runtime \<Rightarrow> ZohoAccount \<Rightarrow> int \<Rightarrow> ZohoEvent \<Rightarrow> error + CalendarEvent" where
  "zohoEvent rt acct idx event =
     (let range =
            (case dateandtime event of
               Some dt \<Rightarrow> (dt_start dt, dt_end dt)
             | None \<Rightarrow> (z_start event, z_end event))
      in case parseZohoDateOf rt (fst range) of
           Inl e \<Rightarrow> Inl e
         | Inr s \<Rightarrow>
             (case parseZohoDateOf rt (snd range) of
                Inl e \<Rightarrow> Inl e
              | Inr e \<Rightarrow>
                  Inr \<lparr>event_id = or_string (z_uid event) [],
                       title = or_string (z_title event) ''(No title)'',
                       start = s,
                       event_end = e,
                       isAllDay = isallday event,
                       account = extractAccountName (email acct),
                       accountEmail = email acct,
                       accountIndex = idx,
                       provider = Zoho\<rparr>))"

text \<open>\<open>calendars.find(c => c.isdefault) || calendars[0]\<close> on a list that is not empty.\<close>

definition primary_calendar :: "ZohoCalendar list \<Rightarrow> ZohoCalendar" where
  "primary_calendar cs = (case find isdefault cs of Some c \<Rightarrow> c | None \<Rightarrow> hd cs)"

text \<open>The body of the \<open>try\<close> for one Zoho account.\<close>

definition zohoAccountBody ::
  "runtime \<Rightarrow> zoho_env \<Rightarrow> int \<Rightarrow> number \<Rightarrow> ZohoAccount \<Rightarrow> int \<Rightarrow> error + CalendarEvent list" where
  "zohoAccountBody rt env now timeMax acct idx =
     (case fst (refreshZohoToken acct now env) of
        Inl e \<Rightarrow> Inl e
      | Inr None \<Rightarrow> Inr []
      | Inr (Some token) \<Rightarrow>
          (case ZOHO_DATACENTERS (datacenter acct) of
             None \<Rightarrow> Inl TypeError
           | Some dc \<Rightarrow>
               (case calendars_api env of
                  Inl e \<Rightarrow> Inl e
                | Inr calendarsResponse \<Rightarrow>
                    if \<not> ok calendarsResponse then Inr []
                    else
                      (case json calendarsResponse of
                         NotJson \<Rightarrow> Inl SyntaxError
                       | JsonNull \<Rightarrow> Inl TypeError
                       | Json calendarsData \<Rightarrow>
                           (let cals = (case body_calendars calendarsData of
                                          None \<Rightarrow> [] | Some cs \<Rightarrow> cs)
                            in if cals = [] then Inr []
                               else
                                 (let calendarUid = cal_uid (primary_calendar cals)
                                  in case toISOString timeMax of
                                       Inl e \<Rightarrow> Inl e
                                     | Inr t \<Rightarrow>
                                         (case events_api env of
                                            Inl e \<Rightarrow> Inl e
                                          | Inr eventsResponse \<Rightarrow>
                                              if \<not> ok eventsResponse then Inr []
                                              else
                                                (case json eventsResponse of
                                                   NotJson \<Rightarrow> Inl SyntaxError
                                                 | JsonNull \<Rightarrow> Inl TypeError
                                                 | Json eventsData \<Rightarrow>
                                                     map_throwing (zohoEvent rt acct idx)
                                                       (case body_events eventsData of
                                                          None \<Rightarrow> []
                                                        | Some es \<Rightarrow> es)))))))))"

definition getZohoEvents ::
  "Config \<Rightarrow> runtime \<Rightarrow> (ZohoAccount \<Rightarrow> zoho_env) \<Rightarrow> int \<Rightarrow> number \<Rightarrow>
   error + CalendarEvent list" where
  "getZohoEvents config rt world now timeMax =
     (if zohoAccounts config = [] then Inr []
      else
        (let gmailCount = int (length (gmail_of config))
         in case Promise_all
                   (map (\<lambda>(idx, acct). catch_empty
                           (zohoAccountBody rt (world acct) now timeMax acct
                              (gmailCount + int idx)))
                      (enumerate 0 (zohoAccounts config))) of
              Inl e \<Rightarrow> Inl e
            | Inr results \<Rightarrow> Inr (concat results)))"

subsection \<open>Zoho tasks\<close>

text \<open>\<open>s.split("/")\<close>.\<close>

fun split_slash :: "string \<Rightarrow> string list" where
  "split_slash [] = [[]]"
| "split_slash (c # cs) =
     (if c = CHR ''/'' then [] # split_slash cs
      else (case split_slash cs of [] \<Rightarrow> [[c]] | p # ps \<Rightarrow> (c # p) # ps))"

text \<open>\<open>new Date(+parts[2], +parts[1] - 1, +parts[0])\<close>: NaN in any part gives an Invalid Date.\<close>

definition date_of_parts :: "runtime \<Rightarrow> string \<Rightarrow> string \<Rightarrow> string \<Rightarrow> number" where
  "date_of_parts rt y m d =
     (case unary_plus rt y of
        NaN \<Rightarrow> NaN
      | Num year \<Rightarrow>
          (case unary_plus rt m of
             NaN \<Rightarrow> NaN
           | Num month \<Rightarrow>
               (case unary_plus rt d of
                  NaN \<Rightarrow> NaN
                | Num day \<Rightarrow> Date_local rt year (month - 1) day 0 0 0)))"

definition parseDueDate :: "runtime \<Rightarrow> due_value \<Rightarrow> error + number option" where
  "parseDueDate rt v =
     (case v of
        NoDue \<Rightarrow> Inr None
      | DueOther \<Rightarrow> Inl TypeError
      | DueString s \<Rightarrow>
          if s = [] then Inr None
          else
            (case split_slash s of
               [d, m, y] \<Rightarrow> Inr (Some (date_of_parts rt y m d))
             | _ \<Rightarrow> Inr None))"

definition completed :: "RawTask \<Rightarrow> bool" where
  "completed t = (raw_status t = Some ''Completed'' \<or> raw_status t = Some ''completed'')"

definition zohoTask :: "runtime \<Rightarrow> int \<Rightarrow> RawTask \<Rightarrow> error + ZohoTask" where
  "zohoTask rt now t =
     (case parseDueDate rt (raw_dueDate t) of
        Inl e \<Rightarrow> Inl e
      | Inr due \<Rightarrow>
          Inr \<lparr>task_id = or_string (raw_id t) [],
               task_title = or_string (raw_title t) ''(No title)'',
               description = or_string (raw_description t) [],
               dueDate = due,
               priority = or_string (raw_priority t) ''Normal'',
               task_status = or_string (raw_status t) ''Open'',
               isOverdue = (case due of None \<Rightarrow> False | Some d \<Rightarrow> num_lt d (Num now))\<rparr>)"

text \<open>
  The loop over the tasks of one account. Each task is pushed as soon as it is built, so
  when an iteration throws (a \<open>null\<close> task, a due date without \<open>split\<close>) the catch ends
  the account and the tasks pushed before stay in \<open>allTasks\<close>.
\<close>

fun push_tasks :: "runtime \<Rightarrow> int \<Rightarrow> RawTask option list \<Rightarrow> ZohoTask list" where
  "push_tasks rt now [] = []"
| "push_tasks rt now (None # ts) = []"
| "push_tasks rt now (Some t # ts) =
     (if completed t then push_tasks rt now ts
      else
        (case zohoTask rt now t of
           Inl e \<Rightarrow> []
         | Inr z \<Rightarrow> z # push_tasks rt now ts))"

text \<open>
  The body of the \<open>try\<close> for one account in \<open>getZohoTasks\<close> up to the loop: the tasks
  of the response, or the exception that ends the account with nothing pushed.
\<close>

definition zohoTasksBody ::
  "zoho_env \<Rightarrow> int \<Rightarrow> ZohoAccount \<Rightarrow> error + RawTask option list" where
  "zohoTasksBody env now acct =
     (case fst (refreshZohoToken acct now env) of
        Inl e \<Rightarrow> Inl e
      | Inr None \<Rightarrow> Inr []
      | Inr (Some token) \<Rightarrow>
          (case ZOHO_DATACENTERS (datacenter acct) of
             None \<Rightarrow> Inl TypeError
           | Some dc \<Rightarrow>
               (case tasks_api env of
                  Inl e \<Rightarrow> Inl e
                | Inr response \<Rightarrow>
                    if \<not> ok response then Inr []
                    else
                      (case json response of
                         NotJson \<Rightarrow> Inl SyntaxError
                       | JsonNull \<Rightarrow> Inl TypeError
                       | Json d \<Rightarrow>
                           Inr (case body_tasks d of None \<Rightarrow> [] | Some ts \<Rightarrow> ts)))))"

definition tasks_pushed :: "runtime \<Rightarrow> zoho_env \<Rightarrow> int \<Rightarrow> ZohoAccount \<Rightarrow> ZohoTask list" where
  "tasks_pushed rt env now acct =
     (case zohoTasksBody env now acct of
        Inl e \<Rightarrow> []
      | Inr ts \<Rightarrow> push_tasks rt (tasks_now env) ts)"

text \<open>
  \<open>getZohoTasks\<close>: its two guards, the loop over \<open>config.zohoAccounts\<close> that appends
  each account's tasks to \<open>allTasks\<close>, the sort and the truncation.
\<close>

definition getZohoTasks ::
  "Config \<Rightarrow> runtime \<Rightarrow> (ZohoAccount \<Rightarrow> zoho_env) \<Rightarrow> int \<Rightarrow> ZohoTask list" where
  "getZohoTasks config rt world now =
     (if zohoAccounts config = [] then []
      else if \<not> showZohoTasks config then []
      else
        (let allTasks =
               concat (map (\<lambda>acct. tasks_pushed rt (world acct) now acct)
                         (zohoAccounts config))
         in slice0 (maxTasksToShow config) (sort_by compareTasks allTasks)))"

subsection \<open>getUpcomingEvents\<close>

definition compareStart :: "CalendarEvent \<Rightarrow> CalendarEvent \<Rightarrow> number" where
  "compareStart a b = num_sub (start a) (start b)"

definition timeMax_of :: "Config \<Rightarrow> int \<Rightarrow> number" where
  "timeMax_of config now = TimeClip (Num (now + lookaheadHours config * 60 * 60 * 1000))"

definition getUpcomingEvents ::
  "Config \<Rightarrow> runtime \<Rightarrow> (string \<Rightarrow> google_env) \<Rightarrow> (ZohoAccount \<Rightarrow> zoho_env) \<Rightarrow> int \<Rightarrow>
   error + CalendarEvent list" where
  "getUpcomingEvents config rt gworld zworld now =
     (let timeMax = timeMax_of config now
      in case getGoogleEvents config rt gworld timeMax of
           Inl e \<Rightarrow> Inl e
         | Inr googleEvents \<Rightarrow>
             (case getZohoEvents config rt zworld now timeMax of
                Inl e \<Rightarrow> Inl e
              | Inr zohoEvents \<Rightarrow> Inr (sort_by compareStart (googleEvents @ zohoEvents))))"

text \<open>
  What one account contributes, and the events of all accounts in the order of the
  configuration: the Google accounts in their order, then the Zoho accounts in theirs.
\<close>

definition contribution :: "error + CalendarEvent list \<Rightarrow> CalendarEvent list" where
  "contribution r = (case r of Inl e \<Rightarrow> [] | Inr evs \<Rightarrow> evs)"

definition google_contributions ::
  "Config \<Rightarrow> runtime \<Rightarrow> (string \<Rightarrow> google_env) \<Rightarrow> number \<Rightarrow> CalendarEvent list" where
  "google_contributions config rt world timeMax =
     concat (map (\<lambda>acct. contribution
                    (googleAccountBody rt (world acct) timeMax acct
                       (indexOf (getAllAccounts config) acct)))
               (gmail_of config))"

definition zoho_contributions ::
  "Config \<Rightarrow> runtime \<Rightarrow> (ZohoAccount \<Rightarrow> zoho_env) \<Rightarrow> int \<Rightarrow> number \<Rightarrow> CalendarEvent list" where
  "zoho_contributions config rt world now timeMax =
     concat (map (\<lambda>(idx, acct). contribution
                    (zohoAccountBody rt (world acct) now timeMax acct
                       (int (length (gmail_of config)) + int idx)))
               (enumerate 0 (zohoAccounts config)))"

definition account_order ::
  "Config \<Rightarrow> runtime \<Rightarrow> (string \<Rightarrow> google_env) \<Rightarrow> (ZohoAccount \<Rightarrow> zoho_env) \<Rightarrow> int \<Rightarrow>
   CalendarEvent list" where
  "account_order config rt gworld zworld now =
     google_contributions config rt gworld (timeMax_of config now) @
     zoho_contributions config rt zworld now (timeMax_of config now)"




definition throws :: "error + 'a \<Rightarrow> bool" where
  "throws r = (case r of Inl e \<Rightarrow> True | Inr v \<Rightarrow> False)"

text \<open>
  Values for concrete runs: a host in UTC that reads three ISO strings, two Google
  accounts and one Zoho account, and the answers of their servers on 9 January 2026.
\<close>

definition iso_host :: runtime where
  "iso_host =
     \<lparr>date_parse =
        (\<lambda>s. case map_of [(''2026-01-09T10:00:00Z'', 1767952800000),
                            (''2026-01-09T10:30:00Z'', 1767954600000),
                            (''2026-01-09T11:00:00Z'', 1767956400000)] s of
                Some v \<Rightarrow> Num v
              | None \<Rightarrow> NaN),
      utc_of_local = (\<lambda>t. t),
      unary_plus = (\<lambda>s. if list_all isDigit s then Num (toNumber s) else NaN)\<rparr>"

definition timed :: "string \<Rightarrow> string \<Rightarrow> string \<Rightarrow> GoogleEvent" where
  "timed name s e =
     \<lparr>g_id = Some name, g_summary = Some name,
      g_start = Some \<lparr>date = None, dateTime = Some s\<rparr>,
      g_end = Some \<lparr>date = None, dateTime = Some e\<rparr>\<rparr>"

definition google_world :: "error + GoogleEvent list option \<Rightarrow> google_env" where
  "google_world reply =
     \<lparr>google_credentials =
        Content \<lparr>installed = Some \<lparr>g_client_id = ''id'', g_client_secret = ''secret''\<rparr>,
                 web = None\<rparr>,
      google_token = Content ''token'', legacy_token = Content ''token'', events_list = reply\<rparr>"

definition zoho_timed :: "string \<Rightarrow> string \<Rightarrow> string \<Rightarrow> ZohoEvent" where
  "zoho_timed name s e =
     \<lparr>z_uid = Some name, z_title = Some name, isallday = False,
      dateandtime = Some \<lparr>dt_start = Some s, dt_end = Some e\<rparr>,
      z_start = None, z_end = None\<rparr>"

definition calendar_world :: "ZohoToken json_file \<Rightarrow> error + EventsBody response \<Rightarrow> zoho_env" where
  "calendar_world tokens reply =
     \<lparr>zoho_credentials = zoho_creds, token_file = tokens, token_api = Inl NetworkError,
      now_after = 0, token_writable = True,
      calendars_api =
        Inr \<lparr>ok = True,
             json = Json \<lparr>body_calendars = Some [\<lparr>isdefault = True, cal_uid = Some ''cal''\<rparr>]\<rparr>\<rparr>,
      events_api = reply, tasks_api = Inl NetworkError, tasks_now = 0\<rparr>"

definition fresh_token :: "ZohoToken json_file" where
  "fresh_token = Content (old_token\<lparr>expires_at := Num 1767990000000\<rparr>)"

definition three_accounts :: Config where
  "three_accounts =
     DEFAULT_CONFIG\<lparr>gmailAccounts := [''ann@gmail.com'', ''bob@corp.example''],
                    zohoAccounts := [zoho_acct]\<rparr>"

definition google_servers :: "string \<Rightarrow> google_env" where
  "google_servers acct =
     (if acct = ''ann@gmail.com''
      then google_world (Inr (Some [timed ''Standup'' ''2026-01-09T10:00:00Z'' ''2026-01-09T10:30:00Z'']))
      else google_world (Inr (Some [timed ''Sync'' ''2026-01-09T10:00:00Z'' ''2026-01-09T11:00:00Z''])))"

definition zoho_servers :: "ZohoAccount \<Rightarrow> zoho_env" where
  "zoho_servers acct =
     calendar_world fresh_token
       (Inr \<lparr>ok = True,
             json = Json \<lparr>body_events =
               Some [zoho_timed ''Early'' ''20260109T090000Z'' ''20260109T093000Z'']\<rparr>\<rparr>)"

definition nine_o_clock :: int where
  "nine_o_clock = 1767949200000"

definition raw_task :: "string \<Rightarrow> string option \<Rightarrow> string \<Rightarrow> RawTask" where
  "raw_task name due p =
     \<lparr>raw_id = Some name, raw_title = Some name, raw_description = None,
      raw_dueDate = (case due of None \<Rightarrow> NoDue | Some s \<Rightarrow> DueString s),
      raw_priority = Some p, raw_status = Some ''Open''\<rparr>"

definition tasks_world :: "RawTask list \<Rightarrow> ZohoAccount \<Rightarrow> zoho_env" where
  "tasks_world ts acct =
     (calendar_world fresh_token (Inl NetworkError))
       \<lparr>tasks_api := Inr \<lparr>ok = True, json = Json \<lparr>body_tasks = Some (map Some ts)\<rparr>\<rparr>,
        tasks_now := 1767949200000\<rparr>"

definition fetched ::
  "string \<Rightarrow> int \<Rightarrow> int \<Rightarrow> string \<Rightarrow> string \<Rightarrow> int \<Rightarrow> provider \<Rightarrow> CalendarEvent" where
  "fetched name s e label mail idx p =
     \<lparr>event_id = name, title = name, start = Num s, event_end = Num e, isAllDay = False,
      account = label, accountEmail = mail, accountIndex = idx, provider = p\<rparr>"

definition standup :: CalendarEvent where
  "standup = fetched ''Standup'' 1767952800000 1767954600000 ''ann'' ''ann@gmail.com'' 0 Google"

definition sync :: CalendarEvent where
  "sync = fetched ''Sync'' 1767952800000 1767956400000 ''corp'' ''bob@corp.example'' 1 Google"

definition early :: CalendarEvent where
  "early = fetched ''Early'' 1767949200000 1767951000000 ''zoho'' ''me@zoho.example'' 2 Zoho"

subsection \<open>The Google-only getUpcomingEvents of calendar.ts and cli.ts\<close>










section \<open>Properties of getCurrentOrNextEvent\<close>

lemma num_gt_lt: "num_gt a b = num_lt b a"
  by (cases a; cases b) auto

lemma first_in_progress_none:
  "(first_in_progress now events = None) = (\<forall>e \<in> set events. \<not> in_progress now e)"
  by (induction events) (auto simp: in_progress_def num_gt_lt)

lemma first_upcoming_none:
  "(first_upcoming now events = None) = (\<forall>e \<in> set events. \<not> upcoming now e)"
  by (induction events) (auto simp: upcoming_def num_gt_lt)

lemma first_in_progress_split:
  "\<forall>x \<in> set pre. \<not> in_progress now x \<Longrightarrow> in_progress now e \<Longrightarrow>
   first_in_progress now (pre @ e # post) = Some e"
  by (induction pre) (auto simp: in_progress_def num_gt_lt)

lemma first_upcoming_split:
  "\<forall>x \<in> set pre. \<not> upcoming now x \<Longrightarrow> upcoming now e \<Longrightarrow>
   first_upcoming now (pre @ e # post) = Some e"
  by (induction pre) (auto simp: upcoming_def num_gt_lt)

lemma first_in_progress_some:
  "first_in_progress now events = Some e \<Longrightarrow> e \<in> set events \<and> in_progress now e"
  by (induction events) (auto simp: in_progress_def num_gt_lt split: if_splits)

lemma first_upcoming_some:
  "first_upcoming now events = Some e \<Longrightarrow> e \<in> set events \<and> upcoming now e"
  by (induction events) (auto simp: upcoming_def num_gt_lt split: if_splits)

text \<open>
  Claim C1. For every event list (sorted or not) and every instant \<open>now\<close>:
  the first event in list order with \<open>start \<le> now < end\<close> is returned when there is one,
  whatever stands before or after it (upcoming events before it, further in-progress
  events after it); when no event is in progress, the first event with \<open>start > now\<close> is
  returned; and the result is none exactly when no event is in progress or upcoming.
\<close>

theorem getCurrentOrNextEvent_first_match:
  "((\<forall>x \<in> set pre. \<not> in_progress now x) \<and> in_progress now e \<longrightarrow>
      getCurrentOrNextEvent now (pre @ e # post) = Some e) \<and>
   ((\<forall>x \<in> set (pre @ e # post). \<not> in_progress now x) \<and>
    (\<forall>x \<in> set pre. \<not> upcoming now x) \<and> upcoming now e \<longrightarrow>
      getCurrentOrNextEvent now (pre @ e # post) = Some e) \<and>
   ((getCurrentOrNextEvent now events = None) =
      (\<forall>x \<in> set events. \<not> in_progress now x \<and> \<not> upcoming now x))"
proof (intro conjI impI)
  assume "(\<forall>x \<in> set pre. \<not> in_progress now x) \<and> in_progress now e"
  then have "first_in_progress now (pre @ e # post) = Some e"
    by (simp add: first_in_progress_split)
  then show "getCurrentOrNextEvent now (pre @ e # post) = Some e"
    by (simp add: getCurrentOrNextEvent_def)
next
  assume a: "(\<forall>x \<in> set (pre @ e # post). \<not> in_progress now x) \<and>
    (\<forall>x \<in> set pre. \<not> upcoming now x) \<and> upcoming now e"
  then have "first_in_progress now (pre @ e # post) = None"
    using first_in_progress_none by blast
  moreover from a have "first_upcoming now (pre @ e # post) = Some e"
    by (simp add: first_upcoming_split)
  ultimately show "getCurrentOrNextEvent now (pre @ e # post) = Some e"
    by (simp add: getCurrentOrNextEvent_def)
next
  show "(getCurrentOrNextEvent now events = None) =
      (\<forall>x \<in> set events. \<not> in_progress now x \<and> \<not> upcoming now x)"
  proof (cases "first_in_progress now events")
    case None
    then show ?thesis
      using first_in_progress_none [of now events] first_upcoming_none [of now events]
      by (auto simp: getCurrentOrNextEvent_def)
  next
    case (Some a)
    then show ?thesis
      using first_in_progress_some [of now events a]
      by (auto simp: getCurrentOrNextEvent_def)
  qed
qed

text \<open>
  At 10:15 (615 minutes): an upcoming event listed before two overlapping in-progress
  events loses to the first of them; with nothing in progress the first upcoming event
  wins; with only a past event the result is none.
\<close>

theorem getCurrentOrNextEvent_first_match_witness:
  "getCurrentOrNextEvent 615 ([ev ''Lunch'' 720 780] @ ev ''Standup'' 600 630 # [ev ''Review'' 610 700])
     = Some (ev ''Standup'' 600 630) \<and>
   getCurrentOrNextEvent 615 ([ev ''Breakfast'' 480 540] @ ev ''Lunch'' 720 780 # [ev ''Dinner'' 1140 1200])
     = Some (ev ''Lunch'' 720 780) \<and>
   getCurrentOrNextEvent 615 [ev ''Breakfast'' 480 540] = None"
proof -
  have a: "getCurrentOrNextEvent 615 ([ev ''Lunch'' 720 780] @ ev ''Standup'' 600 630 # [ev ''Review'' 610 700])
     = Some (ev ''Standup'' 600 630)"
    using getCurrentOrNextEvent_first_match
      [of "[ev ''Lunch'' 720 780]" 615 "ev ''Standup'' 600 630" "[ev ''Review'' 610 700]"]
    by (simp add: in_progress_def ev_def)
  have b: "getCurrentOrNextEvent 615 ([ev ''Breakfast'' 480 540] @ ev ''Lunch'' 720 780 # [ev ''Dinner'' 1140 1200])
     = Some (ev ''Lunch'' 720 780)"
    using getCurrentOrNextEvent_first_match
      [of "[ev ''Breakfast'' 480 540]" 615 "ev ''Lunch'' 720 780" "[ev ''Dinner'' 1140 1200]"]
    by (simp add: in_progress_def upcoming_def ev_def)
  have c: "getCurrentOrNextEvent 615 [ev ''Breakfast'' 480 540] = None"
    using getCurrentOrNextEvent_first_match [of "[]" 615 _ _ "[ev ''Breakfast'' 480 540]"]
    by (simp add: in_progress_def upcoming_def ev_def)
  from a b c show ?thesis by blast
qed

text \<open>
  Claim C9. Whatever the list and the instant, a returned event is an event of the list
  that is in progress (\<open>start \<le> now < end\<close>) or upcoming (\<open>start > now\<close>); an event that
  has already ended (\<open>start \<le> now\<close> and \<open>end \<le> now\<close>) is never returned.
\<close>

theorem getCurrentOrNextEvent_never_ended:
  "getCurrentOrNextEvent now events = Some e \<Longrightarrow>
   e \<in> set events \<and> (in_progress now e \<or> upcoming now e) \<and> \<not> ended now e"
proof -
  assume r: "getCurrentOrNextEvent now events = Some e"
  have m: "e \<in> set events \<and> (in_progress now e \<or> upcoming now e)"
  proof (cases "first_in_progress now events")
    case None
    with r have "first_upcoming now events = Some e"
      by (simp add: getCurrentOrNextEvent_def)
    then show ?thesis using first_upcoming_some by blast
  next
    case (Some a)
    with r have "first_in_progress now events = Some e"
      by (simp add: getCurrentOrNextEvent_def)
    then show ?thesis using first_in_progress_some by blast
  qed
  have "\<not> ended now e"
    using m by (cases "start e"; cases "event_end e") (auto simp: in_progress_def upcoming_def ended_def)
  with m show ?thesis by simp
qed

theorem getCurrentOrNextEvent_never_ended_witness:
  "getCurrentOrNextEvent 615 [ev ''Breakfast'' 480 540, ev ''Lunch'' 720 780] = Some (ev ''Lunch'' 720 780) \<and>
   ev ''Lunch'' 720 780 \<in> set [ev ''Breakfast'' 480 540, ev ''Lunch'' 720 780] \<and>
   upcoming 615 (ev ''Lunch'' 720 780) \<and> \<not> ended 615 (ev ''Lunch'' 720 780) \<and>
   ended 615 (ev ''Breakfast'' 480 540)"
proof -
  have r: "getCurrentOrNextEvent 615 [ev ''Breakfast'' 480 540, ev ''Lunch'' 720 780]
      = Some (ev ''Lunch'' 720 780)"
    by (simp add: getCurrentOrNextEvent_def ev_def)
  show ?thesis
    using getCurrentOrNextEvent_never_ended [OF r] r
    by (simp add: upcoming_def ended_def ev_def)
qed

section \<open>Properties of the usage-limits cache\<close>

lemma fetch_none_iff: "(fst (fetchUsageLimitsFromAPI env) = None) = fetch_fails env"
  by (auto simp: fetchUsageLimitsFromAPI_def fetch_fails_def missing_credential_def
      request_failed_def non_2xx_def malformed_body_def loadClaudeCredentials_def
      split: json_file.splits option.splits sum.splits body.splits)

lemma fetch_calls_le: "snd (fetchUsageLimitsFromAPI env) \<le> 1"
  by (auto simp: fetchUsageLimitsFromAPI_def
      split: json_file.splits option.splits sum.splits body.splits)

lemma load_not_null:
  "\<not> holds_null f \<Longrightarrow>
   \<exists>c. loadUsageLimitsCache f = Some c \<and> data c = persisted_data f \<and>
     is_fresh config now f =
       (data c \<noteq> None \<and>
        num_lt (num_sub (Num now) (fetchedAt c)) (Num (usageLimitsCacheTTL config * 1000)))"
  by (cases f)
    (auto simp: holds_null_def loadUsageLimitsCache_def persisted_data_def is_fresh_def)



text \<open>
  Claim C4, as the code has it. For a cache file that is absent, unreadable or holds a
  JSON value other than \<open>null\<close>, whatever the configuration and the instant: when the
  fetch fails (no usable credential, a network failure or timeout, a response that is not
  2xx, a body that is malformed or lacks a required field), \<open>getUsageLimits\<close> does not
  reject and returns the data of the persisted entry however old it is, which is none only
  when no readable entry with data is persisted; the file is left as it was, and at most
  one request was sent.
\<close>

theorem getUsageLimits_serves_stale:
  "fetch_fails env \<Longrightarrow> \<not> holds_null f \<Longrightarrow>
   \<exists>n. n \<le> 1 \<and> getUsageLimits config now env f = Inr (persisted_data f, f, n)"
proof -
  assume ff: "fetch_fails env" and nn: "\<not> holds_null f"
  from ff have "fst (fetchUsageLimitsFromAPI env) = None"
    by (simp add: fetch_none_iff)
  then obtain n where n: "fetchUsageLimitsFromAPI env = (None, n)"
    by (cases "fetchUsageLimitsFromAPI env") auto
  have le: "n \<le> 1" using fetch_calls_le [of env] n by simp
  from load_not_null [OF nn, of config now] obtain c where
    c: "loadUsageLimitsCache f = Some c" "data c = persisted_data f"
    by blast
  show ?thesis
  proof (cases "data c \<noteq> None \<and>
      num_lt (num_sub (Num now) (fetchedAt c)) (Num (usageLimitsCacheTTL config * 1000))")
    case True
    then have "getUsageLimits config now env f = Inr (persisted_data f, f, 0)"
      using c by (simp add: getUsageLimits_def Let_def)
    then show ?thesis by simp
  next
    case False
    then have "getUsageLimits config now env f = Inr (persisted_data f, f, n)"
      using c n by (auto simp: getUsageLimits_def Let_def)
    with le show ?thesis by blast
  qed
qed

text \<open>
  An entry fetched at instant 1000 is served at instant 100000000, far beyond the TTL of
  120 s, when the network is down; with no cache file the result is none.
\<close>

theorem getUsageLimits_serves_stale_witness:
  "fetch_fails offline \<and>
   getUsageLimits DEFAULT_CONFIG 100000000 offline (entry (snapshot 42 7) 1000 120000)
     = Inr (Some (snapshot 42 7), entry (snapshot 42 7) 1000 120000, 1) \<and>
   getUsageLimits DEFAULT_CONFIG 100000000 offline NoFile = Inr (None, NoFile, 1)"
proof -
  have h: "fetch_fails offline"
    by (simp add: fetch_fails_def request_failed_def offline_def)
  have a: "\<not> holds_null (entry (snapshot 42 7) 1000 120000)"
    by (simp add: holds_null_def entry_def)
  have b: "\<not> holds_null (NoFile :: cache_file)"
    by (simp add: holds_null_def)
  have c: "snd (snd (projr (getUsageLimits DEFAULT_CONFIG 100000000 offline
      (entry (snapshot 42 7) 1000 120000)))) = 1"
    by (simp add: getUsageLimits_def loadUsageLimitsCache_def entry_def DEFAULT_CONFIG_def
        fetchUsageLimitsFromAPI_def offline_def loadClaudeCredentials_def)
  have d: "snd (snd (projr (getUsageLimits DEFAULT_CONFIG 100000000 offline NoFile))) = 1"
    by (simp add: getUsageLimits_def loadUsageLimitsCache_def DEFAULT_CONFIG_def
        fetchUsageLimitsFromAPI_def offline_def loadClaudeCredentials_def)
  from getUsageLimits_serves_stale [OF h a, of DEFAULT_CONFIG 100000000] c
  have e: "getUsageLimits DEFAULT_CONFIG 100000000 offline (entry (snapshot 42 7) 1000 120000)
     = Inr (Some (snapshot 42 7), entry (snapshot 42 7) 1000 120000, 1)"
    by (auto simp: persisted_data_def entry_def)
  from getUsageLimits_serves_stale [OF h b, of DEFAULT_CONFIG 100000000] d
  have f: "getUsageLimits DEFAULT_CONFIG 100000000 offline NoFile = Inr (None, NoFile, 1)"
    by (auto simp: persisted_data_def)
  from h e f show ?thesis by simp
qed

text \<open>
  Claim C4 as stated fails for a cache file that holds the JSON value \<open>null\<close>:
  \<open>loadUsageLimitsCache\<close> returns it, the read of \<open>cache.data\<close> throws, and
  \<open>getUsageLimits\<close> rejects with a TypeError instead of returning.
\<close>

theorem getUsageLimits_null_file_counterexample:
  "fetch_fails offline \<and>
   getUsageLimits DEFAULT_CONFIG 100000000 offline (Content None) = Inl TypeError"
  by (simp add: fetch_fails_def request_failed_def offline_def getUsageLimits_def
      loadUsageLimitsCache_def)




text \<open>
  Claim C10. Two persisted entries that differ only in their \<open>ttl\<close> field give the same
  returned value and the same number of requests, for every configuration, instant and
  environment, and neither call rejects; the file afterwards is the same new entry when
  one was stored, and is otherwise each call's own unchanged file. The stored \<open>ttl\<close>
  takes part in no decision.
\<close>

theorem getUsageLimits_ignores_stored_ttl:
  "\<exists>r n f1 f2.
     getUsageLimits config now env (Content (Some (c\<lparr>ttl := t\<rparr>))) = Inr (r, f1, n) \<and>
     getUsageLimits config now env (Content (Some c)) = Inr (r, f2, n) \<and>
     (f1 = f2 \<or> f1 = Content (Some (c\<lparr>ttl := t\<rparr>)) \<and> f2 = Content (Some c))"
proof (cases "fetchUsageLimitsFromAPI env")
  case (Pair r n)
  then show ?thesis
    by (cases r)
      (auto simp: getUsageLimits_def Let_def loadUsageLimitsCache_def saveUsageLimitsCache_def)
qed

text \<open>
  An entry 10 s old under the default TTL of 120 s is a hit whether its stored \<open>ttl\<close>
  says 120 s or 1 ms.
\<close>

theorem getUsageLimits_ignores_stored_ttl_witness:
  "getUsageLimits DEFAULT_CONFIG 11000 offline (entry (snapshot 42 7) 1000 120000)
     = Inr (Some (snapshot 42 7), entry (snapshot 42 7) 1000 120000, 0) \<and>
   (\<exists>f1. getUsageLimits DEFAULT_CONFIG 11000 offline (entry (snapshot 42 7) 1000 1)
     = Inr (Some (snapshot 42 7), f1, 0))"
proof -
  have a: "getUsageLimits DEFAULT_CONFIG 11000 offline (entry (snapshot 42 7) 1000 120000)
     = Inr (Some (snapshot 42 7), entry (snapshot 42 7) 1000 120000, 0)"
    by (simp add: getUsageLimits_def loadUsageLimitsCache_def DEFAULT_CONFIG_def entry_def)
  obtain r n f1 f2 where o:
    "getUsageLimits DEFAULT_CONFIG 11000 offline
       (Content (Some (\<lparr>data = Some (snapshot 42 7), fetchedAt = Num 1000, ttl = 120000\<rparr>
          \<lparr>ttl := 1\<rparr>))) = Inr (r, f1, n)"
    "getUsageLimits DEFAULT_CONFIG 11000 offline
       (Content (Some \<lparr>data = Some (snapshot 42 7), fetchedAt = Num 1000, ttl = 120000\<rparr>))
       = Inr (r, f2, n)"
    using getUsageLimits_ignores_stored_ttl
      [where config = DEFAULT_CONFIG and now = 11000 and env = offline and t = 1
         and c = "\<lparr>data = Some (snapshot 42 7), fetchedAt = Num 1000, ttl = 120000\<rparr>"]
    by blast
  from o(2) a have "r = Some (snapshot 42 7)" "n = 0"
    by (simp_all add: entry_def)
  with o(1) have "getUsageLimits DEFAULT_CONFIG 11000 offline (entry (snapshot 42 7) 1000 1)
     = Inr (Some (snapshot 42 7), f1, 0)"
    by (simp add: entry_def)
  with a show ?thesis by blast
qed

section \<open>The order of Zoho tasks\<close>

lemma split_due: "split_slash ''20/01/2026'' = [''20'', ''01'', ''2026'']"
  by simp

lemma due_20_january:
  "parseDueDate iso_host (DueString ''20/01/2026'') = Inr (Some (Num 1768867200000))"
  by (simp add: parseDueDate_def split_due date_of_parts_def iso_host_def isDigit_def
      toNumber_def digitValue_def Date_local_def wall_time_def MakeDate_def MakeDay_def
      MakeTime_def MakeFullYear_def DayFromYear_def daysBeforeMonth_def InLeapYear_def
      TimeClip_def)

lemma due_none: "parseDueDate rt NoDue = Inr None"
  by (simp add: parseDueDate_def)

lemmas task_run_defs =
  getZohoTasks_def tasks_pushed_def zohoTasksBody_def zohoTask_def completed_def or_string_def
  refreshZohoToken_def tasks_world_def calendar_world_def fresh_token_def old_token_def
  zoho_creds_def one_zoho_def zoho_acct_def DEFAULT_CONFIG_def ZOHO_DATACENTERS_def
  raw_task_def task_def sort_by_def slice0_def compareTasks_def priorityOrder_def or_1_def
  inherited_keys_def

text \<open>
  Claim C3 at concrete inputs. Two tasks that are not overdue and have no due date, a
  Normal one listed before a High one, come back in that order, and so do a Low and a
  High task due on the same day: \<open>priorityOrder[a.priority] || 1\<close> turns the rank 0
  of High into 1, the rank of Normal, and the comparator returns the difference of two
  due dates without looking at the priority when that difference is 0. Low does sort
  after Normal when neither task has a due date.
\<close>

theorem getZohoTasks_priority_rank:
  "getZohoTasks one_zoho iso_host
      (tasks_world [raw_task ''B'' None ''Normal'', raw_task ''A'' None ''High'']) nine_o_clock
     = [task ''B'' None ''Normal'' False, task ''A'' None ''High'' False] \<and>
   getZohoTasks one_zoho iso_host
      (tasks_world [raw_task ''L'' (Some ''20/01/2026'') ''Low'',
                    raw_task ''H'' (Some ''20/01/2026'') ''High'']) nine_o_clock
     = [task ''L'' (Some (Num 1768867200000)) ''Low'' False,
        task ''H'' (Some (Num 1768867200000)) ''High'' False] \<and>
   getZohoTasks one_zoho iso_host
      (tasks_world [raw_task ''L'' None ''Low'', raw_task ''N'' None ''Normal'']) nine_o_clock
     = [task ''N'' None ''Normal'' False, task ''L'' None ''Low'' False]"
  by (simp add: task_run_defs nine_o_clock_def due_20_january due_none)

section \<open>Properties of parseZohoDate\<close>

lemma digitValue_range: "0 \<le> digitValue c \<and> digitValue c \<le> 9"
  by (simp add: digitValue_def)

lemma toNumber_2: "digits 2 s \<Longrightarrow> 0 \<le> toNumber s \<and> toNumber s \<le> 99"
proof -
  assume "digits 2 s"
  then obtain a b where s: "s = [a, b]"
    by (cases s; cases "tl s") (auto simp: digits_def)
  show ?thesis
    using digitValue_range [of a] digitValue_range [of b]
    by (simp add: s toNumber_def)
qed

lemma toNumber_4: "digits 4 s \<Longrightarrow> 0 \<le> toNumber s \<and> toNumber s \<le> 9999"
proof -
  assume "digits 4 s"
  then have "length s = 4" by (simp add: digits_def)
  then obtain a b c d where s: "s = [a, b, c, d]"
    by (auto simp: length_Suc_conv numeral_eq_Suc)
  show ?thesis
    using digitValue_range [of a] digitValue_range [of b] digitValue_range [of c]
      digitValue_range [of d]
    by (simp add: s toNumber_def)
qed

lemma daysBeforeMonth_range: "0 \<le> mn \<Longrightarrow> mn \<le> 11 \<Longrightarrow> 0 \<le> daysBeforeMonth mn \<and> daysBeforeMonth mn \<le> 334"
proof -
  assume "0 \<le> mn" "mn \<le> 11"
  then have "mn = 0 \<or> mn = 1 \<or> mn = 2 \<or> mn = 3 \<or> mn = 4 \<or> mn = 5 \<or> mn = 6 \<or> mn = 7 \<or>
    mn = 8 \<or> mn = 9 \<or> mn = 10 \<or> mn = 11" by presburger
  then show ?thesis
    by (auto simp: daysBeforeMonth_def)
qed

lemma div_between:
  "(lo::int) \<le> a \<Longrightarrow> a \<le> hi \<Longrightarrow> 0 < c \<Longrightarrow> lo div c \<le> a div c \<and> a div c \<le> hi div c"
  by (simp add: zdiv_mono1)

lemma DayFromYear_range:
  "0 \<le> y \<Longrightarrow> y \<le> 10100 \<Longrightarrow> - 800000 \<le> DayFromYear y \<and> DayFromYear y \<le> 3000000"
proof -
  assume y: "0 \<le> y" "y \<le> 10100"
  define p where "p = (y - 1969) div 4"
  define q where "q = (y - 1901) div 100"
  define r where "r = (y - 1601) div 400"
  have a: "- 493 \<le> p \<and> p \<le> 2032"
    unfolding p_def using div_between [of "- 1969" "y - 1969" 8131 4] y by simp
  have b: "- 20 \<le> q \<and> q \<le> 81"
    unfolding q_def using div_between [of "- 1901" "y - 1901" 8199 100] y by simp
  have c: "- 5 \<le> r \<and> r \<le> 21"
    unfolding r_def using div_between [of "- 1601" "y - 1601" 8499 400] y by simp
  have "DayFromYear y = 365 * (y - 1970) + p - q + r"
    by (simp add: DayFromYear_def p_def q_def r_def)
  then show ?thesis
    using a b c y by auto
qed

lemma wall_time_range:
  assumes "0 \<le> year" "year \<le> 9999" "- 1 \<le> month" "month \<le> 98" "0 \<le> day" "day \<le> 99"
    "0 \<le> hour" "hour \<le> 99" "0 \<le> mins" "mins \<le> 99" "0 \<le> secs" "secs \<le> 99"
  shows "\<bar>wall_time year month day hour mins secs\<bar> \<le> 300000000000000"
proof -
  define ym where "ym = MakeFullYear year + month div 12"
  define mn where "mn = month mod 12"
  define leap :: int where "leap = (if InLeapYear ym \<and> 2 \<le> mn then 1 else 0)"
  have fy: "0 \<le> MakeFullYear year \<and> MakeFullYear year \<le> 9999"
    using assms by (simp add: MakeFullYear_def)
  have md: "- 1 \<le> month div 12 \<and> month div 12 \<le> 8"
    using div_between [of "- 1" month 98 12] assms by simp
  have mm: "0 \<le> mn \<and> mn \<le> 11"
    unfolding mn_def using pos_mod_bound [of 12 month] by simp
  have ymr: "- 1 \<le> ym \<and> ym \<le> 10100"
    unfolding ym_def using fy md by auto
  have dfy: "- 800000 \<le> DayFromYear ym \<and> DayFromYear ym \<le> 3000000"
  proof (cases "ym = - 1")
    case True
    then show ?thesis by (simp add: DayFromYear_def)
  next
    case False
    then show ?thesis using DayFromYear_range [of ym] ymr by simp
  qed
  have dbm: "0 \<le> daysBeforeMonth mn \<and> daysBeforeMonth mn \<le> 334"
    using daysBeforeMonth_range mm by simp
  have lp: "0 \<le> leap \<and> leap \<le> 1" by (simp add: leap_def)
  have day_eq: "MakeDay (MakeFullYear year) month day
      = DayFromYear ym + daysBeforeMonth mn + leap + day - 1"
    by (simp add: MakeDay_def Let_def ym_def mn_def leap_def)
  define dd where "dd = MakeDay (MakeFullYear year) month day"
  have ddr: "- 800001 \<le> dd \<and> dd \<le> 3000500"
    unfolding dd_def day_eq using dfy dbm lp assms by auto
  define tt where "tt = MakeTime hour mins secs 0"
  have ttr: "0 \<le> tt \<and> tt \<le> 400000000"
    unfolding tt_def MakeTime_def using assms by auto
  have "wall_time year month day hour mins secs = dd * 86400000 + tt"
    by (simp add: wall_time_def MakeDate_def dd_def tt_def)
  then show ?thesis using ddr ttr by auto
qed

lemma matchZone_simps:
  "matchZone [] = Some NoZone"
  "matchZone ''Z'' = Some Zulu"
  "digits 2 tzh \<Longrightarrow> digits 2 tzm \<Longrightarrow> matchZone (CHR ''+'' # tzh @ tzm) = Some (Offset CHR ''+'' tzh tzm)"
  "digits 2 tzh \<Longrightarrow> digits 2 tzm \<Longrightarrow> matchZone (CHR ''-'' # tzh @ tzm) = Some (Offset CHR ''-'' tzh tzm)"
  by (simp_all add: matchZone_def digits_def)

lemma matchZohoDate_wall:
  "well_formed y mo d h mi s \<Longrightarrow> matchZone r = Some z \<Longrightarrow>
   matchZohoDate (wall_string y mo d h mi s @ r) =
     Some \<lparr>m_year = y, m_month = mo, m_day = d, m_hour = h, m_min = mi, m_sec = s, m_zone = z\<rparr>"
  by (simp add: matchZohoDate_def well_formed_def wall_string_def digits_def)

lemma utc_wall_range:
  "well_formed y mo d h mi s \<Longrightarrow> \<bar>utc_wall y mo d h mi s\<bar> \<le> 300000000000000"
  unfolding utc_wall_def well_formed_def
  using toNumber_4 [of y] toNumber_2 [of mo] toNumber_2 [of d] toNumber_2 [of h]
    toNumber_2 [of mi] toNumber_2 [of s]
  by (intro wall_time_range) auto

lemma offset_ms_range:
  "digits 2 tzh \<Longrightarrow> digits 2 tzm \<Longrightarrow> 0 \<le> offset_ms tzh tzm \<and> offset_ms tzh tzm \<le> 400000000"
  unfolding offset_ms_def using toNumber_2 [of tzh] toNumber_2 [of tzm] by simp

text \<open>
  Claim C8. For every well-formed timed-event string (four digits of year, two each of
  month, day, hour, minute, second, around the letter T) and whatever the host: with a
  final Z the result is the wall time read as UTC; with a signed four-digit offset it is
  that instant minus the offset for the sign \<open>+\<close> and plus the offset for the sign \<open>-\<close>;
  with no zone it is the wall time read as local time, converted by the host's zone.
\<close>

theorem parseZohoDate_zones:
  assumes wf: "well_formed y mo d h mi s" and tz: "digits 2 tzh" "digits 2 tzm"
  shows "parseZohoDate rt (wall_string y mo d h mi s @ ''Z'') = Num (utc_wall y mo d h mi s) \<and>
   parseZohoDate rt (wall_string y mo d h mi s @ ''+'' @ tzh @ tzm)
     = Num (utc_wall y mo d h mi s - offset_ms tzh tzm) \<and>
   parseZohoDate rt (wall_string y mo d h mi s @ ''-'' @ tzh @ tzm)
     = Num (utc_wall y mo d h mi s + offset_ms tzh tzm) \<and>
   parseZohoDate rt (wall_string y mo d h mi s)
     = TimeClip (Num (utc_of_local rt (utc_wall y mo d h mi s)))"
proof -
  note r = utc_wall_range [OF wf]
  note o = offset_ms_range [OF tz]
  have u: "Date_UTC (toNumber y) (toNumber mo - 1) (toNumber d) (toNumber h) (toNumber mi) (toNumber s)
      = Num (utc_wall y mo d h mi s)"
    using r by (simp add: Date_UTC_def TimeClip_def utc_wall_def)
  have z: "parseZohoDate rt (wall_string y mo d h mi s @ ''Z'') = Num (utc_wall y mo d h mi s)"
    using r by (simp add: parseZohoDate_def matchZohoDate_wall [OF wf matchZone_simps(2)] u TimeClip_def)
  have p: "parseZohoDate rt (wall_string y mo d h mi s @ ''+'' @ tzh @ tzm)
     = Num (utc_wall y mo d h mi s - offset_ms tzh tzm)"
    using r o
    by (auto simp: parseZohoDate_def matchZohoDate_wall [OF wf matchZone_simps(3) [OF tz]] u
        TimeClip_def offset_ms_def)
  have m: "parseZohoDate rt (wall_string y mo d h mi s @ ''-'' @ tzh @ tzm)
     = Num (utc_wall y mo d h mi s + offset_ms tzh tzm)"
    using r o
    by (auto simp: parseZohoDate_def matchZohoDate_wall [OF wf matchZone_simps(4) [OF tz]] u
        TimeClip_def offset_ms_def)
  have l: "parseZohoDate rt (wall_string y mo d h mi s)
     = TimeClip (Num (utc_of_local rt (utc_wall y mo d h mi s)))"
    using matchZohoDate_wall [OF wf matchZone_simps(1)]
    by (simp add: parseZohoDate_def Date_local_def utc_wall_def)
  from z p m l show ?thesis by simp
qed


text \<open>
  16:30:00 on 9 January 2026: as UTC, at five and a half hours east and west of UTC, and
  without a zone on a host five and a half hours east.
\<close>

theorem parseZohoDate_zones_witness:
  "parseZohoDate kolkata ''20260109T163000Z'' = Num 1767976200000 \<and>
   parseZohoDate kolkata ''20260109T163000+0530'' = Num 1767956400000 \<and>
   parseZohoDate kolkata ''20260109T163000-0530'' = Num 1767996000000 \<and>
   parseZohoDate kolkata ''20260109T163000'' = Num 1767956400000"
proof -
  have wf: "well_formed ''2026'' ''01'' ''09'' ''16'' ''30'' ''00''"
    by (simp add: well_formed_def digits_def isDigit_def)
  have tz: "digits 2 ''05''" "digits 2 ''30''"
    by (simp_all add: digits_def isDigit_def)
  have u: "utc_wall ''2026'' ''01'' ''09'' ''16'' ''30'' ''00'' = 1767976200000"
    by (simp add: utc_wall_def toNumber_def digitValue_def wall_time_def MakeDate_def MakeDay_def
        MakeTime_def MakeFullYear_def DayFromYear_def daysBeforeMonth_def InLeapYear_def)
  have o: "offset_ms ''05'' ''30'' = 19800000"
    by (simp add: offset_ms_def toNumber_def digitValue_def)
  show ?thesis
    using parseZohoDate_zones [OF wf tz, of kolkata]
    by (simp add: u o wall_string_def kolkata_def TimeClip_def)
qed

section \<open>Properties of refreshZohoToken\<close>

lemma refresh_calls_le: "snd (snd (refreshZohoToken acct now env)) \<le> 1"
  by (auto simp: refreshZohoToken_def Let_def
      split: json_file.splits sum.splits option.splits body.splits)

text \<open>
  Claim C6, as the code has it. With no token file the result is none and nothing is
  sent. A token that expires more than five minutes after \<open>now\<close> is returned unchanged
  and nothing is sent. A token inside the buffer leads to at most one exchange: exactly
  one when the client credentials load and the datacenter is known, and otherwise none,
  with the result none. When the exchange answers 2xx with a body holding an access token
  and a lifetime, and the file can be written, the record returned and persisted is the old
  one with only \<open>access_token\<close> and \<open>expires_at\<close> replaced (\<open>refresh_token\<close> and
  \<open>api_domain\<close> stay). When the exchange is rejected (network failure, a response that is
  not 2xx, a body that is not JSON or is \<open>null\<close>) the result is none and the file is left
  as it was.
\<close>

theorem refreshZohoToken_gating:
  "(token_file env = NoFile \<longrightarrow> refreshZohoToken acct now env = (Inr None, NoFile, 0)) \<and>
   (token_file env = Content token \<and> \<not> inside_buffer now token \<longrightarrow>
      refreshZohoToken acct now env = (Inr (Some token), Content token, 0)) \<and>
   (token_file env = Content token \<and> inside_buffer now token \<longrightarrow>
      snd (snd (refreshZohoToken acct now env)) \<le> 1 \<and>
      (if can_exchange acct env
       then snd (snd (refreshZohoToken acct now env)) = 1
       else refreshZohoToken acct now env = (Inr None, Content token, 0))) \<and>
   (token_file env = Content token \<and> inside_buffer now token \<and> can_exchange acct env \<and>
    token_api env = Inr \<lparr>ok = True, json = Json \<lparr>body_access_token = Some a, expires_in = Some n\<rparr>\<rparr> \<and>
    token_writable env \<longrightarrow>
      refreshZohoToken acct now env =
        (Inr (Some (token\<lparr>access_token := Some a, expires_at := Num (now_after env + n * 1000)\<rparr>)),
         Content (token\<lparr>access_token := Some a, expires_at := Num (now_after env + n * 1000)\<rparr>),
         1)) \<and>
   (token_file env = Content token \<and> inside_buffer now token \<and> exchange_rejected env \<longrightarrow>
      fst (refreshZohoToken acct now env) = Inr None \<and>
      fst (snd (refreshZohoToken acct now env)) = Content token)"
proof (intro conjI impI)
  assume "token_file env = NoFile"
  then show "refreshZohoToken acct now env = (Inr None, NoFile, 0)"
    by (simp add: refreshZohoToken_def)
next
  assume "token_file env = Content token \<and> \<not> inside_buffer now token"
  then show "refreshZohoToken acct now env = (Inr (Some token), Content token, 0)"
    by (simp add: refreshZohoToken_def inside_buffer_def)
next
  assume "token_file env = Content token \<and> inside_buffer now token"
  show "snd (snd (refreshZohoToken acct now env)) \<le> 1"
    by (rule refresh_calls_le)
next
  assume "token_file env = Content token \<and> inside_buffer now token"
  then show "if can_exchange acct env
       then snd (snd (refreshZohoToken acct now env)) = 1
       else refreshZohoToken acct now env = (Inr None, Content token, 0)"
    by (auto simp: refreshZohoToken_def inside_buffer_def can_exchange_def loadZohoCredentials_def
        Let_def split: json_file.splits sum.splits option.splits body.splits)
next
  assume "token_file env = Content token \<and> inside_buffer now token \<and> can_exchange acct env \<and>
    token_api env = Inr \<lparr>ok = True, json = Json \<lparr>body_access_token = Some a, expires_in = Some n\<rparr>\<rparr> \<and>
    token_writable env"
  then show "refreshZohoToken acct now env =
        (Inr (Some (token\<lparr>access_token := Some a, expires_at := Num (now_after env + n * 1000)\<rparr>)),
         Content (token\<lparr>access_token := Some a, expires_at := Num (now_after env + n * 1000)\<rparr>),
         1)"
    by (auto simp: refreshZohoToken_def inside_buffer_def can_exchange_def loadZohoCredentials_def
        Let_def split: json_file.splits option.splits)
next
  assume a: "token_file env = Content token \<and> inside_buffer now token \<and> exchange_rejected env"
  then show "fst (refreshZohoToken acct now env) = Inr None"
    by (auto simp: refreshZohoToken_def inside_buffer_def exchange_rejected_def Let_def
        split: json_file.splits sum.splits option.splits body.splits if_splits)
  from a show "fst (snd (refreshZohoToken acct now env)) = Content token"
    by (auto simp: refreshZohoToken_def inside_buffer_def exchange_rejected_def Let_def
        split: json_file.splits sum.splits option.splits body.splits if_splits)
qed

text \<open>
  A run of each clause: a token that expires in an hour; a successful refresh inside
  the buffer; a network failure inside the buffer.
\<close>

theorem refreshZohoToken_gating_witness:
  "refreshZohoToken zoho_acct (- 4000000) (zoho_world zoho_creds (Inl NetworkError))
     = (Inr (Some old_token), Content old_token, 0) \<and>
   refreshZohoToken zoho_acct 2000
       (zoho_world zoho_creds
          (Inr \<lparr>ok = True, json = Json \<lparr>body_access_token = Some ''new'', expires_in = Some 3600\<rparr>\<rparr>))
     = (Inr (Some (old_token\<lparr>access_token := Some ''new'', expires_at := Num 3605000\<rparr>)),
        Content (old_token\<lparr>access_token := Some ''new'', expires_at := Num 3605000\<rparr>), 1) \<and>
   fst (refreshZohoToken zoho_acct 2000 (zoho_world zoho_creds (Inl NetworkError))) = Inr None \<and>
   snd (snd (refreshZohoToken zoho_acct 2000 (zoho_world zoho_creds (Inl NetworkError)))) = 1"
proof -
  have a: "refreshZohoToken zoho_acct (- 4000000) (zoho_world zoho_creds (Inl NetworkError))
     = (Inr (Some old_token), Content old_token, 0)"
    using refreshZohoToken_gating
      [where env = "zoho_world zoho_creds (Inl NetworkError)" and token = old_token
         and now = "- 4000000" and acct = zoho_acct]
    by (simp add: zoho_world_def inside_buffer_def old_token_def)
  have b: "refreshZohoToken zoho_acct 2000
       (zoho_world zoho_creds
          (Inr \<lparr>ok = True, json = Json \<lparr>body_access_token = Some ''new'', expires_in = Some 3600\<rparr>\<rparr>))
     = (Inr (Some (old_token\<lparr>access_token := Some ''new'', expires_at := Num 3605000\<rparr>)),
        Content (old_token\<lparr>access_token := Some ''new'', expires_at := Num 3605000\<rparr>), 1)"
    using refreshZohoToken_gating
      [where env = "zoho_world zoho_creds
          (Inr \<lparr>ok = True, json = Json \<lparr>body_access_token = Some ''new'', expires_in = Some 3600\<rparr>\<rparr>)"
         and token = old_token and now = 2000 and acct = zoho_acct and a = "''new''" and n = 3600]
    by (simp add: zoho_world_def inside_buffer_def old_token_def can_exchange_def zoho_creds_def
        zoho_acct_def ZOHO_DATACENTERS_def)
  have c: "fst (refreshZohoToken zoho_acct 2000 (zoho_world zoho_creds (Inl NetworkError))) = Inr None \<and>
   snd (snd (refreshZohoToken zoho_acct 2000 (zoho_world zoho_creds (Inl NetworkError)))) = 1"
    using refreshZohoToken_gating
      [where env = "zoho_world zoho_creds (Inl NetworkError)" and token = old_token
         and now = 2000 and acct = zoho_acct]
    by (simp add: zoho_world_def inside_buffer_def old_token_def can_exchange_def zoho_creds_def
        zoho_acct_def ZOHO_DATACENTERS_def exchange_rejected_def)
  from a b c show ?thesis by blast
qed

text \<open>
  Claim C6 as stated fails twice for a token inside the buffer. With no client
  credential file no exchange is sent, where the claim says exactly one. With a 2xx answer
  whose JSON body holds neither an access token nor a lifetime (the refresh has failed)
  the result is not none: the record is returned, and persisted, with \<open>access_token\<close>
  undefined and \<open>expires_at\<close> NaN.
\<close>

theorem refreshZohoToken_counterexample:
  "inside_buffer 2000 old_token \<and>
   refreshZohoToken zoho_acct 2000 (zoho_world NoFile (Inl NetworkError))
     = (Inr None, Content old_token, 0) \<and>
   refreshZohoToken zoho_acct 2000
       (zoho_world zoho_creds (Inr \<lparr>ok = True, json = Json \<lparr>body_access_token = None, expires_in = None\<rparr>\<rparr>))
     = (Inr (Some (old_token\<lparr>access_token := None, expires_at := NaN\<rparr>)),
        Content (old_token\<lparr>access_token := None, expires_at := NaN\<rparr>), 1)"
  by (simp add: refreshZohoToken_def inside_buffer_def zoho_world_def old_token_def zoho_acct_def
      zoho_creds_def loadZohoCredentials_def ZOHO_DATACENTERS_def Let_def)

section \<open>Properties of the event aggregation\<close>

lemma Promise_all_caught:
  "Promise_all (map (\<lambda>x. catch_empty (f x)) xs) = Inr (map (\<lambda>x. contribution (f x)) xs)"
  by (induction xs) (auto simp: catch_empty_def contribution_def split: sum.splits)

lemma getGoogleEvents_total:
  "getGoogleEvents config rt world tm = Inr (google_contributions config rt world tm)"
  by (simp add: getGoogleEvents_def google_contributions_def Promise_all_caught)

lemma Promise_all_caught_pairs:
  "Promise_all (map (\<lambda>(i, x). catch_empty (f i x)) xs)
     = Inr (map (\<lambda>(i, x). contribution (f i x)) xs)"
  by (induction xs) (auto simp: catch_empty_def contribution_def split: sum.splits)

lemma getZohoEvents_total:
  "getZohoEvents config rt world now tm = Inr (zoho_contributions config rt world now tm)"
  by (simp add: getZohoEvents_def zoho_contributions_def Promise_all_caught_pairs Let_def)

lemma getUpcomingEvents_total:
  "getUpcomingEvents config rt gworld zworld now
     = Inr (sort_by compareStart (account_order config rt gworld zworld now))"
  by (simp add: getUpcomingEvents_def getGoogleEvents_total getZohoEvents_total account_order_def
      Let_def)







subsection \<open>One concrete run\<close>

text \<open>
  Both Google accounts answer with an event that starts at 10:00, the Zoho account with
  one that starts at 09:00.
\<close>

lemmas run_defs =
  getUpcomingEvents_def getGoogleEvents_def getZohoEvents_def googleAccountBody_def
  zohoAccountBody_def getGoogleAuthenticatedClient_def loadGoogleCredentials_def
  createGoogleOAuth2Client_def refreshZohoToken_def toISOString_def timeMax_of_def
  TimeClip_def catch_empty_def googleEvent_def zohoEvent_def parseZohoDateOf_def
  new_Date_string_def midnight_of_def field_of_def or_string_def extractAccountName_def
  gmail_of_def getAllAccounts_def primary_calendar_def ZOHO_DATACENTERS_def
  sort_by_def compareStart_def contribution_def account_order_def google_contributions_def
  zoho_contributions_def enumerate_eq_zip

lemmas world_defs =
  three_accounts_def google_servers_def zoho_servers_def google_world_def calendar_world_def
  fresh_token_def old_token_def zoho_creds_def zoho_acct_def timed_def zoho_timed_def
  iso_host_def nine_o_clock_def DEFAULT_CONFIG_def

lemma parse_nine: "parseZohoDate rt ''20260109T090000Z'' = Num 1767949200000"
  by (simp add: parseZohoDate_def matchZohoDate_def matchZone_def isDigit_def toNumber_def
      digitValue_def Date_UTC_def wall_time_def MakeDate_def MakeDay_def MakeTime_def
      MakeFullYear_def DayFromYear_def daysBeforeMonth_def InLeapYear_def TimeClip_def)

lemma parse_half_past_nine: "parseZohoDate rt ''20260109T093000Z'' = Num 1767951000000"
  by (simp add: parseZohoDate_def matchZohoDate_def matchZone_def isDigit_def toNumber_def
      digitValue_def Date_UTC_def wall_time_def MakeDate_def MakeDay_def MakeTime_def
      MakeFullYear_def DayFromYear_def daysBeforeMonth_def InLeapYear_def TimeClip_def)

lemmas event_defs = standup_def sync_def early_def fetched_def






subsection \<open>Order of the merged events\<close>








subsection \<open>Failure of one account\<close>

lemma google_contributions_swap:
  assumes "contribution (googleAccountBody rt bad tm a (indexOf (getAllAccounts config) a))
    = contribution (googleAccountBody rt quiet tm a (indexOf (getAllAccounts config) a))"
  shows "google_contributions config rt (gworld(a := bad)) tm
    = google_contributions config rt (gworld(a := quiet)) tm"
proof -
  have "contribution (googleAccountBody rt ((gworld(a := bad)) acct) tm acct
            (indexOf (getAllAccounts config) acct))
      = contribution (googleAccountBody rt ((gworld(a := quiet)) acct) tm acct
            (indexOf (getAllAccounts config) acct))" for acct
    using assms by (cases "acct = a") simp_all
  then have "(\<lambda>acct. contribution (googleAccountBody rt ((gworld(a := bad)) acct) tm acct
            (indexOf (getAllAccounts config) acct)))
      = (\<lambda>acct. contribution (googleAccountBody rt ((gworld(a := quiet)) acct) tm acct
            (indexOf (getAllAccounts config) acct)))"
    by (intro ext)
  then show ?thesis
    unfolding google_contributions_def
    by (rule arg_cong [where f = "\<lambda>f. concat (map f (gmail_of config))"])
qed

lemma zoho_contributions_swap:
  assumes "\<And>i. contribution (zohoAccountBody rt bad now tm z i)
    = contribution (zohoAccountBody rt quiet now tm z i)"
  shows "zoho_contributions config rt (zworld(z := bad)) now tm
    = zoho_contributions config rt (zworld(z := quiet)) now tm"
proof -
  have "contribution (zohoAccountBody rt ((zworld(z := bad)) acct) now tm acct i)
      = contribution (zohoAccountBody rt ((zworld(z := quiet)) acct) now tm acct i)" for acct i
    using assms by (cases "acct = z") simp_all
  then have "(\<lambda>(idx, acct). contribution (zohoAccountBody rt ((zworld(z := bad)) acct) now tm acct
            (int (length (gmail_of config)) + int idx)))
      = (\<lambda>(idx, acct). contribution (zohoAccountBody rt ((zworld(z := quiet)) acct) now tm acct
            (int (length (gmail_of config)) + int idx)))"
    by (intro ext) (simp add: case_prod_beta)
  then show ?thesis
    unfolding zoho_contributions_def
    by (rule arg_cong [where f = "\<lambda>f. concat (map f (enumerate 0 (zohoAccounts config)))"])
qed

lemma throws_contribution: "throws r \<Longrightarrow> contribution r = []"
  by (cases r) (simp_all add: throws_def contribution_def)

text \<open>
  Claim C7. \<open>getGoogleEvents\<close>, \<open>getZohoEvents\<close> and \<open>getUpcomingEvents\<close> never
  reject, whatever the configuration and the worlds. When the fetch of one Google account
  throws (at any point of its \<open>try\<close> body), the results of \<open>getGoogleEvents\<close> and of
  \<open>getUpcomingEvents\<close> are those of the world in which that account's fetch returns no
  events and every other account is as before; likewise for a Zoho account and
  \<open>getZohoEvents\<close>.
\<close>

theorem account_failure_isolated:
  "(\<exists>evs. getGoogleEvents config rt gworld tm = Inr evs) \<and>
   (\<exists>evs. getZohoEvents config rt zworld now tm = Inr evs) \<and>
   (\<exists>evs. getUpcomingEvents config rt gworld zworld now = Inr evs) \<and>
   (throws (googleAccountBody rt bad (timeMax_of config now) a (indexOf (getAllAccounts config) a)) \<and>
    googleAccountBody rt quiet (timeMax_of config now) a (indexOf (getAllAccounts config) a) = Inr [] \<longrightarrow>
      getGoogleEvents config rt (gworld(a := bad)) (timeMax_of config now)
        = getGoogleEvents config rt (gworld(a := quiet)) (timeMax_of config now) \<and>
      getUpcomingEvents config rt (gworld(a := bad)) zworld now
        = getUpcomingEvents config rt (gworld(a := quiet)) zworld now) \<and>
   ((\<forall>i. throws (zohoAccountBody rt zbad now (timeMax_of config now) z i)) \<and>
    (\<forall>i. zohoAccountBody rt zquiet now (timeMax_of config now) z i = Inr []) \<longrightarrow>
      getZohoEvents config rt (zworld(z := zbad)) now (timeMax_of config now)
        = getZohoEvents config rt (zworld(z := zquiet)) now (timeMax_of config now) \<and>
      getUpcomingEvents config rt gworld (zworld(z := zbad)) now
        = getUpcomingEvents config rt gworld (zworld(z := zquiet)) now)"
proof (intro conjI impI)
  show "\<exists>evs. getGoogleEvents config rt gworld tm = Inr evs"
    by (simp add: getGoogleEvents_total)
  show "\<exists>evs. getZohoEvents config rt zworld now tm = Inr evs"
    by (simp add: getZohoEvents_total)
  show "\<exists>evs. getUpcomingEvents config rt gworld zworld now = Inr evs"
    by (simp add: getUpcomingEvents_total)
next
  assume h: "throws (googleAccountBody rt bad (timeMax_of config now) a (indexOf (getAllAccounts config) a)) \<and>
    googleAccountBody rt quiet (timeMax_of config now) a (indexOf (getAllAccounts config) a) = Inr []"
  then have "contribution (googleAccountBody rt bad (timeMax_of config now) a (indexOf (getAllAccounts config) a))
    = contribution (googleAccountBody rt quiet (timeMax_of config now) a (indexOf (getAllAccounts config) a))"
    using throws_contribution by (auto simp: contribution_def)
  then have g: "google_contributions config rt (gworld(a := bad)) (timeMax_of config now)
    = google_contributions config rt (gworld(a := quiet)) (timeMax_of config now)"
    by (rule google_contributions_swap)
  show "getGoogleEvents config rt (gworld(a := bad)) (timeMax_of config now)
        = getGoogleEvents config rt (gworld(a := quiet)) (timeMax_of config now)"
    by (simp add: getGoogleEvents_total g)
  show "getUpcomingEvents config rt (gworld(a := bad)) zworld now
        = getUpcomingEvents config rt (gworld(a := quiet)) zworld now"
    by (simp add: getUpcomingEvents_total account_order_def g)
next
  assume h: "(\<forall>i. throws (zohoAccountBody rt zbad now (timeMax_of config now) z i)) \<and>
    (\<forall>i. zohoAccountBody rt zquiet now (timeMax_of config now) z i = Inr [])"
  then have "contribution (zohoAccountBody rt zbad now (timeMax_of config now) z i)
    = contribution (zohoAccountBody rt zquiet now (timeMax_of config now) z i)" for i
    using throws_contribution by (auto simp: contribution_def)
  then have g: "zoho_contributions config rt (zworld(z := zbad)) now (timeMax_of config now)
    = zoho_contributions config rt (zworld(z := zquiet)) now (timeMax_of config now)"
    by (rule zoho_contributions_swap)
  show "getZohoEvents config rt (zworld(z := zbad)) now (timeMax_of config now)
        = getZohoEvents config rt (zworld(z := zquiet)) now (timeMax_of config now)"
    by (simp add: getZohoEvents_total g)
  show "getUpcomingEvents config rt gworld (zworld(z := zbad)) now
        = getUpcomingEvents config rt gworld (zworld(z := zquiet)) now"
    by (simp add: getUpcomingEvents_total account_order_def g)
qed


text \<open>
  In the concrete run: a network failure for the first Google account, and an unreadable
  token file for the Zoho account (an exception thrown by \<open>refreshZohoToken\<close> itself),
  each leave the events of the other accounts, as an account without events would.
\<close>

theorem account_failure_isolated_witness:
  "getUpcomingEvents three_accounts iso_host
      (google_servers(''ann@gmail.com'' := google_world (Inl NetworkError))) zoho_servers nine_o_clock
     = Inr [early, sync] \<and>
   getUpcomingEvents three_accounts iso_host
      (google_servers(''ann@gmail.com'' := google_world (Inr (Some [])))) zoho_servers nine_o_clock
     = Inr [early, sync] \<and>
   getUpcomingEvents three_accounts iso_host google_servers
      (zoho_servers(zoho_acct := calendar_world Unreadable (Inl NetworkError))) nine_o_clock
     = Inr [standup, sync] \<and>
   getUpcomingEvents three_accounts iso_host google_servers
      (zoho_servers(zoho_acct := calendar_world NoFile (Inl NetworkError))) nine_o_clock
     = Inr [standup, sync]"
proof -
  have gb: "throws (googleAccountBody iso_host (google_world (Inl NetworkError))
      (timeMax_of three_accounts nine_o_clock) ''ann@gmail.com''
      (indexOf (getAllAccounts three_accounts) ''ann@gmail.com''))"
    by (simp add: throws_def run_defs world_defs)
  have gq: "googleAccountBody iso_host (google_world (Inr (Some [])))
      (timeMax_of three_accounts nine_o_clock) ''ann@gmail.com''
      (indexOf (getAllAccounts three_accounts) ''ann@gmail.com'') = Inr []"
    by (simp add: run_defs world_defs)
  have zb: "\<forall>i. throws (zohoAccountBody iso_host (calendar_world Unreadable (Inl NetworkError))
      nine_o_clock (timeMax_of three_accounts nine_o_clock) zoho_acct i)"
    by (simp add: throws_def run_defs world_defs)
  have zq: "\<forall>i. zohoAccountBody iso_host (calendar_world NoFile (Inl NetworkError))
      nine_o_clock (timeMax_of three_accounts nine_o_clock) zoho_acct i = Inr []"
    by (simp add: run_defs world_defs)
  have g: "getUpcomingEvents three_accounts iso_host
      (google_servers(''ann@gmail.com'' := google_world (Inl NetworkError))) zoho_servers nine_o_clock
     = getUpcomingEvents three_accounts iso_host
      (google_servers(''ann@gmail.com'' := google_world (Inr (Some [])))) zoho_servers nine_o_clock"
    using account_failure_isolated
      [where config = three_accounts and rt = iso_host and now = nine_o_clock
         and a = "''ann@gmail.com''" and bad = "google_world (Inl NetworkError)"
         and quiet = "google_world (Inr (Some []))" and gworld = google_servers
         and zworld = zoho_servers] gb gq
    by blast
  have z: "getUpcomingEvents three_accounts iso_host google_servers
      (zoho_servers(zoho_acct := calendar_world Unreadable (Inl NetworkError))) nine_o_clock
     = getUpcomingEvents three_accounts iso_host google_servers
      (zoho_servers(zoho_acct := calendar_world NoFile (Inl NetworkError))) nine_o_clock"
    using account_failure_isolated
      [where config = three_accounts and rt = iso_host and now = nine_o_clock
         and z = zoho_acct and zbad = "calendar_world Unreadable (Inl NetworkError)"
         and zquiet = "calendar_world NoFile (Inl NetworkError)" and gworld = google_servers
         and zworld = zoho_servers] zb zq
    by blast
  have gv: "getUpcomingEvents three_accounts iso_host
      (google_servers(''ann@gmail.com'' := google_world (Inr (Some [])))) zoho_servers nine_o_clock
     = Inr [early, sync]"
    by (simp add: run_defs world_defs event_defs parse_nine parse_half_past_nine)
  have zv: "getUpcomingEvents three_accounts iso_host google_servers
      (zoho_servers(zoho_acct := calendar_world NoFile (Inl NetworkError))) nine_o_clock
     = Inr [standup, sync]"
    by (simp add: run_defs world_defs event_defs)
  from g z gv zv show ?thesis by simp
qed

end
